theory Spec2Isabelle
  imports Main "HOL-Library.Code_Target_Nat"
begin

section \<open>JavaScript strings\<close>

text \<open>
  A JavaScript string is a sequence of UTF-16 code units. The literals of \<^verbatim>\<open>game.js\<close>
  are Korean, and \<^verbatim>\<open>String.prototype.trim\<close> strips characters beyond ASCII, so a
  string is modelled as the list of its code units. ASCII literals are written through
  \<open>ascii\<close>; the Korean literals are the constants below, code unit by code unit.
\<close>

type_synonym jstring = "nat list"

definition ascii :: "string \<Rightarrow> jstring" where
  "ascii cs = map of_char cs"

text \<open>
  The code units that \<^verbatim>\<open>trim\<close> removes: ECMAScript WhiteSpace and LineTerminator
  (TAB, LF, VT, FF, CR, SP, NBSP, U+1680, U+2000 to U+200A, U+2028, U+2029, U+202F,
  U+205F, U+3000, U+FEFF). All of them are single code units.
\<close>

definition is_ws :: "nat \<Rightarrow> bool" where
  "is_ws c \<longleftrightarrow>
     c \<in> set [9, 10, 11, 12, 13, 32, 160, 5760, 8232, 8233, 8239, 8287, 12288, 65279]
     \<or> (8192 \<le> c \<and> c \<le> 8202)"

definition trim :: "jstring \<Rightarrow> jstring" where
  "trim s = rev (dropWhile is_ws (rev (dropWhile is_ws s)))"

text \<open>
  Decimal rendering of an integer, as a template literal renders an integral Number.
  It is exact for the integers a Number holds exactly and prints without an exponent
  (magnitude below \<open>2^53\<close>), which covers the bounded resource values and the amounts
  of the API.
\<close>

fun digits :: "nat \<Rightarrow> jstring" where
  "digits n = (if n < 10 then [48 + n] else digits (n div 10) @ [48 + n mod 10])"

declare digits.simps [simp del]

definition num_str :: "int \<Rightarrow> jstring" where
  "num_str i = (if i < 0 then 45 # digits (nat (- i)) else digits (nat i))"

text \<open>
  A string-valued property that may be missing: \<open>None\<close> is \<^verbatim>\<open>undefined\<close>. Such a value is
  truthy when it is a non-empty string; \<open>str_or a b\<close> is \<^verbatim>\<open>a || b\<close>.
\<close>

definition truthy :: "jstring option \<Rightarrow> bool" where
  "truthy v = (case v of None \<Rightarrow> False | Some s \<Rightarrow> s \<noteq> [])"

definition str_or :: "jstring option \<Rightarrow> jstring \<Rightarrow> jstring" where
  "str_or a b = (case a of None \<Rightarrow> b | Some s \<Rightarrow> if s = [] then b else s)"

text \<open>\<^verbatim>\<open>Array.prototype.join\<close> on an array of strings.\<close>

fun join :: "jstring \<Rightarrow> jstring list \<Rightarrow> jstring" where
  "join sep [] = []"
| "join sep [x] = x"
| "join sep (x # y # ys) = x @ sep @ join sep (y # ys)"

subsection \<open>The literals of the source\<close>

definition msg_start_first :: jstring where
  "msg_start_first = [44172, 51076, 51012, 32, 47676, 51200, 32, 49884, 51089, 54644,
     51452, 49464, 50836, 46]"

definition msg_cannot_start :: jstring where
  "msg_cannot_start = [44172, 51076, 51012, 32, 49884, 51089, 54624, 32, 49688, 32,
     50630, 49845, 45768, 45796, 46]"

definition msg_error_retry :: jstring where
  "msg_error_retry = [50724, 47448, 44032, 32, 48156, 49373, 54664, 49845, 45768, 45796,
     46, 32, 45796, 49884, 32, 49884, 46020, 54644, 51452, 49464, 50836, 46]"

definition msg_game_ended :: jstring where
  "msg_game_ended = [44172, 51076, 51060, 32, 51333, 47308, 46104, 50632, 49845, 45768,
     45796, 46]"

definition log_start_error :: jstring where
  "log_start_error = [44172, 51076, 32, 49884, 51089, 32, 50724, 47448, 58]"

definition log_choice_error :: jstring where
  "log_choice_error = [49440, 53469, 32, 52376, 47532, 32, 50724, 47448, 58]"

definition label_health :: jstring where
  "label_health = [52404, 47141, 58, 32]"

definition label_mental :: jstring where
  "label_mental = [47704, 53448, 58, 32]"

definition label_money :: jstring where
  "label_money = [46024, 58, 32]"

definition label_resource_change :: jstring where
  "label_resource_change = [51088, 50896, 32, 48320, 54868, 58, 32]"

definition label_gadget_change :: jstring where
  "label_gadget_change = [44032, 51247, 32, 48320, 54868, 58, 32]"

definition label_acquired :: jstring where
  "label_acquired = [32, 54925, 46301, 32, 40, 43]"

definition label_lost :: jstring where
  "label_lost = [32, 49552, 49892, 32, 40, 45]"

definition label_none :: jstring where
  "label_none = [50630, 51020]"

section \<open>The payloads of the HTTP API\<close>

text \<open>
  The JSON bodies are typed after the shapes the handlers read. A property that may be
  missing is an \<open>option\<close> (\<open>None\<close> is \<^verbatim>\<open>undefined\<close>); resource values and gadget amounts
  are integers; an encounter is an opaque object, always truthy when present.
\<close>

record resources =
  health :: "int option"
  mental :: "int option"
  money :: "int option"

text \<open>
  \<open>st_gadgets\<close> is the \<open>gadgets\<close> object as the list of its properties in the order
  \<^verbatim>\<open>Object.keys\<close> enumerates them (each name once, integer-like names first).
\<close>

record state_payload =
  st_resources :: "resources option"
  st_gadgets :: "(jstring \<times> int) list option"

record gadget_change =
  gid :: jstring
  action :: jstring
  amount :: int

record result_payload =
  res_resources :: "resources option"
  res_gadgets :: "gadget_change list option"

record choice_mapped_payload =
  story :: "jstring option"
  explanation :: "jstring option"

record message =
  mtype :: "jstring option"
  content :: "jstring option"
  url :: "jstring option"
  alt :: "jstring option"

datatype encounter = Encounter nat

text \<open>
  \<open>data\<close> is the parsed body of either endpoint; each handler reads the properties it
  needs and the others are missing.
\<close>

record data =
  error :: "jstring option"
  session_id :: "jstring option"
  encounter :: "encounter option"
  state :: "state_payload option"
  messages :: "message list option"
  choice_mapped :: "choice_mapped_payload option"
  result :: "result_payload option"
  game_over :: "bool option"
  game_over_reason :: "jstring option"
  next_encounter :: "encounter option"

text \<open>
  What the two awaits of a handler deliver: \<open>Failed\<close> when \<^verbatim>\<open>fetch\<close> or
  \<^verbatim>\<open>response.json()\<close> rejects (control goes to the \<^verbatim>\<open>catch\<close> block), \<open>Parsed d\<close>
  otherwise.
\<close>

datatype outcome = Failed | Parsed data

section \<open>The page\<close>

record game_state =
  sessionId :: "jstring option"
  currentEncounter :: "encounter option"
  gs_state :: "state_payload option"

datatype display = Stylesheet | DNone | Block

text \<open>A child of an encounter group: an image (src, alt) or a bubble (text).\<close>

datatype encounter_node = Img jstring jstring | Bubble jstring

text \<open>
  A child of the transcript: a message \<^verbatim>\<open>div\<close> (text, type) or an encounter group. The
  group element outlives its removal from the transcript (the timers hold it), so
  groups live in a store \<open>wraps\<close> and the transcript refers to them by index.
\<close>

datatype chat_node = Message jstring jstring | Group nat

datatype request = StartRequest | ChoiceRequest jstring jstring

record timer =
  registered_at :: nat
  delay :: nat
  wrap :: nat
  item :: message

text \<open>
  The global \<^verbatim>\<open>gameState\<close>, the properties of the DOM elements the script touches, and
  the effects it has on its environment: the calls to \<^verbatim>\<open>alert\<close>, \<^verbatim>\<open>console.error\<close>
  and \<^verbatim>\<open>fetch\<close> in order, and the pending \<^verbatim>\<open>setTimeout\<close> callbacks. An icon group is
  the list of the \<^verbatim>\<open>empty\<close> class flags of its spans, \<open>None\<close> when the element does not
  exist (the only lookup the script guards). \<open>now\<close> is the clock that \<^verbatim>\<open>setTimeout\<close>
  reads. Scroll positions depend on the layout and are left out, and so is the state
  popup, which shares nothing with the rest of the script.
\<close>

record page =
  gameState :: game_state
  welcomeScreen_display :: display
  gameScreen_display :: display
  gameOverScreen_display :: display
  startBtn_disabled :: bool
  chatInput_value :: jstring
  chatInput_disabled :: bool
  chatInput_focused :: bool
  sendBtn_disabled :: bool
  chatMessages :: "chat_node list"
  wraps :: "encounter_node list list"
  game_over_reason_text :: jstring
  health_icons :: "bool list option"
  mental_icons :: "bool list option"
  money_icons :: "bool list option"
  health_value :: jstring
  mental_value :: jstring
  money_value :: jstring
  gadgets_list :: jstring
  alerts :: "jstring list"
  console_errors :: "jstring list"
  requests :: "request list"
  timers :: "timer list"
  now :: nat

section \<open>The rendering routines\<close>

definition addMessage :: "jstring \<Rightarrow> jstring \<Rightarrow> page \<Rightarrow> page" where
  "addMessage text type s = s\<lparr>chatMessages := chatMessages s @ [Message text type]\<rparr>"

text \<open>
  \<^verbatim>\<open>spans.forEach((s, i) => s.classList.toggle('empty', i >= value))\<close>, and nothing
  when the element is missing.
\<close>

definition updateIconGroup :: "bool list option \<Rightarrow> int \<Rightarrow> bool list option" where
  "updateIconGroup el v =
     (case el of None \<Rightarrow> None
      | Some spans \<Rightarrow> Some (map (\<lambda>i. int i \<ge> v) [0..<length spans]))"

definition clamp_resource :: "int option \<Rightarrow> int \<Rightarrow> int" where
  "clamp_resource v dflt = min 3 (max 0 (case v of None \<Rightarrow> dflt | Some x \<Rightarrow> x))"

definition no_resources :: resources where
  "no_resources = \<lparr>health = None, mental = None, money = None\<rparr>"

definition updateGameState :: "state_payload option \<Rightarrow> page \<Rightarrow> page" where
  "updateGameState st s =
     (case st of None \<Rightarrow> s
      | Some st' \<Rightarrow>
          let res = (case st_resources st' of None \<Rightarrow> no_resources | Some r \<Rightarrow> r);
              h = clamp_resource (health res) 3;
              m = clamp_resource (mental res) 3;
              c = clamp_resource (money res) 0;
              gadgets = (case st_gadgets st' of None \<Rightarrow> [] | Some g \<Rightarrow> g)
          in s\<lparr>health_icons := updateIconGroup (health_icons s) h,
                mental_icons := updateIconGroup (mental_icons s) m,
                money_icons := updateIconGroup (money_icons s) c,
                health_value := num_str h @ ascii ''/3'',
                mental_value := num_str m @ ascii ''/3'',
                money_value := num_str c @ ascii ''/3'',
                gadgets_list := str_or (Some (join (ascii '', '') (map fst gadgets))) label_none\<rparr>)"

text \<open>The body of the callback that \<^verbatim>\<open>addEncounterBubbles\<close> schedules for one item.\<close>

definition render_item :: "message \<Rightarrow> encounter_node option" where
  "render_item m =
     (if mtype m = Some (ascii ''image'') then
        (let u = str_or (url m) [] in
         if u = [] then None else Some (Img u (str_or (alt m) [])))
      else
        (let text = trim (str_or (content m) []) in
         if text = [] then None else Some (Bubble text)))"

text \<open>
  The callback appends the node to the group \<open>w\<close> it was created for, whether or not the
  transcript still shows that group.
\<close>

definition bubble_callback :: "nat \<Rightarrow> message \<Rightarrow> page \<Rightarrow> page" where
  "bubble_callback w m s =
     (case render_item m of None \<Rightarrow> s
      | Some n \<Rightarrow> if w < length (wraps s) then s\<lparr>wraps := (wraps s)[w := wraps s ! w @ [n]]\<rparr> else s)"

text \<open>
  \<^verbatim>\<open>items.forEach((m, index) => setTimeout(..., index * 500))\<close>: every timer is
  registered during the call, with the clock of the call.
\<close>

definition schedule :: "nat \<Rightarrow> nat \<Rightarrow> message list \<Rightarrow> timer list" where
  "schedule t w items =
     map (\<lambda>(index, m). \<lparr>registered_at = t, delay = index * 500, wrap = w, item = m\<rparr>)
       (enumerate 0 items)"

definition addEncounterBubbles :: "message list \<Rightarrow> page \<Rightarrow> page" where
  "addEncounterBubbles items s =
     (if items = [] then s
      else let w = length (wraps s)
           in s\<lparr>wraps := wraps s @ [[]],
                 chatMessages := chatMessages s @ [Group w],
                 timers := timers s @ schedule (now s) w items\<rparr>)"

section \<open>The handlers\<close>

text \<open>
  An \<^verbatim>\<open>async\<close> handler runs up to its first \<^verbatim>\<open>await\<close> when the event fires (the call
  to \<^verbatim>\<open>fetch\<close> included) and resumes when the request completes. Each handler is
  therefore two functions: the part that runs on the event, and \<open>_resume\<close>, which the
  outcome of the request runs on the page as it is by then.
\<close>

definition startBtn_click :: "page \<Rightarrow> page" where
  "startBtn_click s =
     (if startBtn_disabled s then s
      else s\<lparr>startBtn_disabled := True,
              chatMessages := [],
              requests := requests s @ [StartRequest]\<rparr>)"

definition startBtn_resume :: "outcome \<Rightarrow> page \<Rightarrow> page" where
  "startBtn_resume r s =
     (case r of
        Failed \<Rightarrow>
          s\<lparr>console_errors := console_errors s @ [log_start_error],
            alerts := alerts s @ [msg_cannot_start],
            startBtn_disabled := False\<rparr>
      | Parsed d \<Rightarrow>
          if truthy (error d) then
            s\<lparr>alerts := alerts s @ [the (error d)], startBtn_disabled := False\<rparr>
          else
            addEncounterBubbles (case messages d of None \<Rightarrow> [] | Some ms \<Rightarrow> ms)
              (updateGameState (state d)
                (s\<lparr>gameState := \<lparr>sessionId = session_id d,
                                   currentEncounter = encounter d,
                                   gs_state = state d\<rparr>,
                    welcomeScreen_display := DNone,
                    gameScreen_display := Block\<rparr>)))"

definition restartBtn_click :: "page \<Rightarrow> page" where
  "restartBtn_click s =
     s\<lparr>gameState := \<lparr>sessionId = None, currentEncounter = None, gs_state = None\<rparr>,
       gameOverScreen_display := DNone,
       welcomeScreen_display := Block,
       chatMessages := [],
       startBtn_disabled := False\<rparr>"

definition sendChoice :: "page \<Rightarrow> page" where
  "sendChoice s =
     (let input = trim (chatInput_value s) in
      if input = [] then s
      else if \<not> truthy (sessionId (gameState s)) then
        s\<lparr>alerts := alerts s @ [msg_start_first]\<rparr>
      else
        (addMessage input (ascii ''player'') s)
          \<lparr>chatInput_value := [],
           chatInput_disabled := True,
           sendBtn_disabled := True,
           requests := requests s @ [ChoiceRequest (the (sessionId (gameState s))) input]\<rparr>)"

text \<open>The text of one resource delta, \<open>None\<close> when it is not listed.\<close>

definition resource_change :: "jstring \<Rightarrow> int option \<Rightarrow> jstring option" where
  "resource_change label v =
     (case v of None \<Rightarrow> None
      | Some x \<Rightarrow> if x \<noteq> 0 then Some (label @ (if x > 0 then ascii ''+'' else []) @ num_str x)
                  else None)"

definition resource_changes :: "resources \<Rightarrow> jstring list" where
  "resource_changes r =
     List.map_filter id
       [resource_change label_health (health r),
        resource_change label_mental (mental r),
        resource_change label_money (money r)]"

text \<open>
  The arrow function mapped over \<^verbatim>\<open>data.result.gadgets\<close>: it returns \<^verbatim>\<open>undefined\<close> for
  any other action, which \<^verbatim>\<open>filter(Boolean)\<close> then removes (the two strings it builds
  are never empty).
\<close>

definition gadget_text :: "gadget_change \<Rightarrow> jstring option" where
  "gadget_text g =
     (if action g = ascii ''acquire'' then
        Some (gid g @ label_acquired @ num_str (amount g) @ ascii '')'')
      else if action g = ascii ''lose'' then
        Some (gid g @ label_lost @ num_str (amount g) @ ascii '')'')
      else None)"

definition gadget_changes :: "gadget_change list \<Rightarrow> jstring list" where
  "gadget_changes gs = filter (\<lambda>t. t \<noteq> []) (List.map_filter gadget_text gs)"

definition resultText :: "result_payload \<Rightarrow> jstring" where
  "resultText r =
     (case res_resources r of None \<Rightarrow> []
      | Some res \<Rightarrow>
          let changes = resource_changes res in
          if length changes > 0
          then label_resource_change @ join (ascii '', '') changes @ [10] else [])
     @
     (case res_gadgets r of None \<Rightarrow> []
      | Some gs \<Rightarrow>
          if length gs > 0 then
            (let gadgetChanges = gadget_changes gs in
             if length gadgetChanges > 0
             then label_gadget_change @ join (ascii '', '') gadgetChanges @ [10] else [])
          else [])"

definition story_text :: "data \<Rightarrow> jstring" where
  "story_text d =
     (case choice_mapped d of None \<Rightarrow> []
      | Some cm \<Rightarrow> str_or (story cm) (str_or (explanation cm) []))"

definition show_story :: "data \<Rightarrow> page \<Rightarrow> page" where
  "show_story d s =
     (let t = story_text d in
      if t \<noteq> [] then addMessage t (ascii ''story'') s else s)"

definition show_result :: "data \<Rightarrow> page \<Rightarrow> page" where
  "show_result d s =
     (case result d of None \<Rightarrow> s
      | Some r \<Rightarrow>
          let t = resultText r in
          if t \<noteq> [] then addMessage (trim t) (ascii ''result'') s else s)"

definition sendChoice_resume :: "outcome \<Rightarrow> page \<Rightarrow> page" where
  "sendChoice_resume r s =
     (case r of
        Failed \<Rightarrow>
          (addMessage msg_error_retry (ascii ''system'')
             (s\<lparr>console_errors := console_errors s @ [log_choice_error]\<rparr>))
            \<lparr>chatInput_disabled := False, sendBtn_disabled := False\<rparr>
      | Parsed d \<Rightarrow>
          if truthy (error d) then
            (addMessage (the (error d)) (ascii ''system'') s)
              \<lparr>chatInput_disabled := False, sendBtn_disabled := False\<rparr>
          else
            let s1 = show_story d s;
                s2 = show_result d s1;
                s3 = updateGameState (state d) s2
            in if game_over d = Some True then
                 s3\<lparr>gameOverScreen_display := Block,
                    gameScreen_display := DNone,
                    game_over_reason_text := str_or (game_over_reason d) msg_game_ended\<rparr>
               else
                 (let s4 = (if next_encounter d \<noteq> None then
                              addEncounterBubbles
                                (case messages d of None \<Rightarrow> [] | Some ms \<Rightarrow> ms)
                                (s3\<lparr>gameState :=
                                     (gameState s3)\<lparr>currentEncounter := next_encounter d\<rparr>\<rparr>)
                            else s3)
                  in s4\<lparr>chatInput_disabled := False,
                        sendBtn_disabled := False,
                        chatInput_focused := True\<rparr>))"

section \<open>The environment of the script\<close>

text \<open>
  The page as the script finds it: no session, nothing shown or typed, every control
  enabled. The markup is not part of the script; the three icon groups are taken with
  three spans each, as the script's comment on them counts nine icons.
\<close>

definition initial_page :: page where
  "initial_page =
     \<lparr>gameState = \<lparr>sessionId = None, currentEncounter = None, gs_state = None\<rparr>,
      welcomeScreen_display = Stylesheet,
      gameScreen_display = Stylesheet,
      gameOverScreen_display = Stylesheet,
      startBtn_disabled = False,
      chatInput_value = [],
      chatInput_disabled = False,
      chatInput_focused = False,
      sendBtn_disabled = False,
      chatMessages = [],
      wraps = [],
      game_over_reason_text = [],
      health_icons = Some [False, False, False],
      mental_icons = Some [False, False, False],
      money_icons = Some [False, False, False],
      health_value = [],
      mental_value = [],
      money_value = [],
      gadgets_list = [],
      alerts = [],
      console_errors = [],
      requests = [],
      timers = [],
      now = 0\<rparr>"

subsection \<open>Timers\<close>

text \<open>
  The browser runs a pending \<^verbatim>\<open>setTimeout\<close> callback once its delay has passed since
  its registration, earlier due times first and, among equal ones, in the order of
  registration. \<open>elapse n\<close> lets \<open>n\<close> time units pass and runs the callbacks that are due.
\<close>

definition due :: "timer \<Rightarrow> nat" where
  "due t = registered_at t + delay t"

definition fire :: "timer \<Rightarrow> page \<Rightarrow> page" where
  "fire t s = bubble_callback (wrap t) (item t) s"

definition elapse :: "nat \<Rightarrow> page \<Rightarrow> page" where
  "elapse n s =
     (let t = now s + n
      in fold fire (sort_key due (filter (\<lambda>x. due x \<le> t) (timers s)))
           (s\<lparr>now := t, timers := filter (\<lambda>x. \<not> due x \<le> t) (timers s)\<rparr>))"

subsection \<open>Events\<close>

text \<open>
  What can happen to the page: the user activates a control, presses Enter in the input
  field or types into it; an outstanding request completes; time passes. The browser
  dispatches no click on a disabled button and no key to a disabled input field. A
  \<open>world\<close> is the page together with the numbers of start and choice requests that are
  in flight: a handler's calls to \<^verbatim>\<open>fetch\<close> add to them (\<open>handle\<close> reads the calls off
  the request log), a completion takes one away, and a completion is possible only for
  a request that is in flight.
\<close>

datatype event =
  StartClick | RestartClick | SendClick | EnterKey | TypeInput jstring
  | StartDone outcome | ChoiceDone outcome | Elapse nat

record world =
  ui :: page
  starts_pending :: nat
  choices_pending :: nat

definition handle :: "(page \<Rightarrow> page) \<Rightarrow> world \<Rightarrow> world" where
  "handle h w =
     (let s' = h (ui w);
          new = drop (length (requests (ui w))) (requests s')
      in w\<lparr>ui := s',
           starts_pending := starts_pending w + length (filter (\<lambda>q. q = StartRequest) new),
           choices_pending := choices_pending w + length (filter (\<lambda>q. q \<noteq> StartRequest) new)\<rparr>)"

fun step :: "event \<Rightarrow> world \<Rightarrow> world" where
  "step StartClick w = handle startBtn_click w"
| "step RestartClick w = handle restartBtn_click w"
| "step SendClick w = (if sendBtn_disabled (ui w) then w else handle sendChoice w)"
| "step EnterKey w = (if chatInput_disabled (ui w) then w else handle sendChoice w)"
| "step (TypeInput v) w =
     (if chatInput_disabled (ui w) then w else w\<lparr>ui := (ui w)\<lparr>chatInput_value := v\<rparr>\<rparr>)"
| "step (StartDone r) w =
     (if starts_pending w = 0 then w
      else handle (startBtn_resume r) (w\<lparr>starts_pending := starts_pending w - 1\<rparr>))"
| "step (ChoiceDone r) w =
     (if choices_pending w = 0 then w
      else handle (sendChoice_resume r) (w\<lparr>choices_pending := choices_pending w - 1\<rparr>))"
| "step (Elapse n) w = handle (elapse n) w"

definition run :: "event list \<Rightarrow> world \<Rightarrow> world" where
  "run es w = fold step es w"

definition initial_world :: world where
  "initial_world = \<lparr>ui = initial_page, starts_pending = 0, choices_pending = 0\<rparr>"

text \<open>
  The start control does its job when at most one start request is in flight and the
  control is disabled while one is. The input is locked when both input controls are
  disabled and no choice request is in flight.
\<close>

definition start_guarded :: "world \<Rightarrow> bool" where
  "start_guarded w \<longleftrightarrow>
     starts_pending w = 0 \<or> (starts_pending w = 1 \<and> startBtn_disabled (ui w))"

definition input_locked :: "world \<Rightarrow> bool" where
  "input_locked w \<longleftrightarrow>
     chatInput_disabled (ui w) \<and> sendBtn_disabled (ui w) \<and> choices_pending w = 0"

section \<open>The specification's wording\<close>

text \<open>
  The displayed level of a resource as the specification words it: the default when the
  value is undefined, else the value clamped to 0..3; its label \<open>N/3\<close>; and its three
  icons, \<open>N\<close> filled (not \<^verbatim>\<open>empty\<close>) followed by \<open>3 - N\<close> empty.
\<close>

definition spec_level :: "int option \<Rightarrow> nat \<Rightarrow> nat" where
  "spec_level v dflt =
     (case v of None \<Rightarrow> dflt
      | Some x \<Rightarrow> if x < 0 then 0 else if 3 < x then 3 else nat x)"

definition spec_label :: "nat \<Rightarrow> jstring" where
  "spec_label n = [48 + n] @ ascii ''/3''"

definition spec_icons :: "nat \<Rightarrow> bool list" where
  "spec_icons n = replicate n False @ replicate (3 - n) True"

text \<open>The state payload of the specification's clamping example.\<close>

definition clamp_example :: state_payload where
  "clamp_example =
     \<lparr>st_resources = Some \<lparr>health = Some (- 1), mental = Some 5, money = Some 2\<rparr>,
      st_gadgets = None\<rparr>"

text \<open>
  The result entry as the specification words it. A resource delta is listed only when
  it is defined and not zero, and a positive one carries an explicit \<open>+\<close>; a gadget
  change is listed only when its action is \<open>acquire\<close> or \<open>lose\<close>. Each kind makes one
  line when it lists anything; the lines, joined by a line feed, are the text of the one
  \<open>result\<close> entry, and there is no entry when there is no line.
\<close>

definition spec_delta :: "jstring \<times> int option \<Rightarrow> jstring" where
  "spec_delta lv = fst lv @ (if 0 < the (snd lv) then ascii ''+'' else []) @ num_str (the (snd lv))"

definition spec_listed :: "jstring \<times> int option \<Rightarrow> bool" where
  "spec_listed lv \<longleftrightarrow> snd lv \<noteq> None \<and> snd lv \<noteq> Some 0"

definition spec_resource_line :: "resources option \<Rightarrow> jstring list" where
  "spec_resource_line ro =
     (case ro of None \<Rightarrow> []
      | Some r \<Rightarrow>
          let ds = map spec_delta (filter spec_listed
                     [(label_health, health r), (label_mental, mental r), (label_money, money r)])
          in if ds = [] then [] else [label_resource_change @ join (ascii '', '') ds])"

definition spec_recognized :: "gadget_change \<Rightarrow> bool" where
  "spec_recognized g \<longleftrightarrow> action g = ascii ''acquire'' \<or> action g = ascii ''lose''"

definition spec_gadget_entry :: "gadget_change \<Rightarrow> jstring" where
  "spec_gadget_entry g =
     gid g @ (if action g = ascii ''acquire'' then label_acquired else label_lost)
       @ num_str (amount g) @ ascii '')''"

definition spec_gadget_line :: "gadget_change list option \<Rightarrow> jstring list" where
  "spec_gadget_line go =
     (case go of None \<Rightarrow> []
      | Some gs \<Rightarrow>
          let es = map spec_gadget_entry (filter spec_recognized gs)
          in if es = [] then [] else [label_gadget_change @ join (ascii '', '') es])"

definition spec_result_lines :: "result_payload \<Rightarrow> jstring list" where
  "spec_result_lines r = spec_resource_line (res_resources r) @ spec_gadget_line (res_gadgets r)"

definition spec_result_entries :: "result_payload \<Rightarrow> chat_node list" where
  "spec_result_entries r =
     (if spec_result_lines r = [] then []
      else [Message (join [10] (spec_result_lines r)) (ascii ''result'')])"

text \<open>A line that \<open>trim\<close> leaves as it is: not empty, no whitespace at either end.\<close>

definition clean_line :: "jstring \<Rightarrow> bool" where
  "clean_line l \<longleftrightarrow> l \<noteq> [] \<and> \<not> is_ws (hd l) \<and> \<not> is_ws (last l)"

text \<open>
  The other entries a choice response adds to the transcript: the story entry, and the
  encounter group of the next encounter (\<open>w\<close> is the index the group gets in the store).
\<close>

definition story_entries :: "data \<Rightarrow> chat_node list" where
  "story_entries d =
     (if story_text d = [] then [] else [Message (story_text d) (ascii ''story'')])"

definition encounter_entries :: "data \<Rightarrow> nat \<Rightarrow> chat_node list" where
  "encounter_entries d w =
     (if game_over d \<noteq> Some True \<and> next_encounter d \<noteq> None
         \<and> messages d \<noteq> None \<and> messages d \<noteq> Some []
      then [Group w] else [])"

text \<open>The result of the specification's zero-delta example, alone in a response.\<close>

definition delta_example :: data where
  "delta_example =
     \<lparr>error = None, session_id = None, encounter = None, state = None, messages = None,
      choice_mapped = None,
      result = Some \<lparr>res_resources = Some \<lparr>health = Some (- 1), mental = None, money = Some 0\<rparr>,
                      res_gadgets = None\<rparr>,
      game_over = None, game_over_reason = None, next_encounter = None\<rparr>"

text \<open>A result with a positive delta, a zero delta and a gadget change of an unknown action.\<close>

definition gadget_example :: result_payload where
  "gadget_example =
     \<lparr>res_resources = Some \<lparr>health = Some 2, mental = Some 0, money = None\<rparr>,
      res_gadgets = Some [\<lparr>gid = ascii ''rope'', action = ascii ''acquire'', amount = 1\<rparr>,
                          \<lparr>gid = ascii ''map'', action = ascii ''drop'', amount = 1\<rparr>,
                          \<lparr>gid = ascii ''key'', action = ascii ''lose'', amount = 2\<rparr>]\<rparr>"

text \<open>
  A page in mid-game with a choice typed in, and a response to that choice which
  carries a story and a next encounter.
\<close>

definition live_page :: page where
  "live_page =
     initial_page
       \<lparr>gameState := \<lparr>sessionId = Some (ascii ''s1''),
                       currentEncounter = Some (Encounter 1),
                       gs_state = None\<rparr>,
        welcomeScreen_display := DNone,
        gameScreen_display := Block,
        startBtn_disabled := True,
        chatInput_value := ascii ''go''\<rparr>"

definition late_response :: data where
  "late_response =
     \<lparr>error = None, session_id = None, encounter = None, state = None,
      messages = Some [\<lparr>mtype = Some (ascii ''text''), content = Some (ascii ''hi''),
                        url = None, alt = None\<rparr>],
      choice_mapped = Some \<lparr>story = Some (ascii ''late''), explanation = None\<rparr>,
      result = None,
      game_over = None, game_over_reason = None,
      next_encounter = Some (Encounter 2)\<rparr>"

text \<open>A response that ends the game without giving a reason, and one that reports an error.\<close>

definition game_over_response :: data where
  "game_over_response =
     \<lparr>error = None, session_id = None, encounter = None,
      state = Some clamp_example,
      messages = Some [\<lparr>mtype = Some (ascii ''text''), content = Some (ascii ''hi''),
                        url = None, alt = None\<rparr>],
      choice_mapped = None, result = None,
      game_over = Some True, game_over_reason = None,
      next_encounter = Some (Encounter 2)\<rparr>"

definition error_response :: data where
  "error_response =
     \<lparr>error = Some (ascii ''bad''), session_id = None, encounter = None, state = None,
      messages = None, choice_mapped = None, result = None,
      game_over = None, game_over_reason = None,
      next_encounter = Some (Encounter 2)\<rparr>"

text \<open>
  The node of a message item as the specification words it: an image item without a
  URL, or with an empty one, gives no node; any other item whose content is missing or
  empty after trimming gives no node; every other item gives one node, an image with
  its alt text (empty when missing) or a bubble with the trimmed text.
\<close>

definition spec_node :: "message \<Rightarrow> encounter_node option" where
  "spec_node m =
     (if mtype m = Some (ascii ''image'') then
        (case url m of None \<Rightarrow> None
         | Some u \<Rightarrow> if u = [] then None
                     else Some (Img u (case alt m of None \<Rightarrow> [] | Some a \<Rightarrow> a)))
      else
        (case content m of None \<Rightarrow> None
         | Some c \<Rightarrow> if trim c = [] then None else Some (Bubble (trim c))))"

text \<open>The specification's three messages: a text, an image with an empty URL, a text.\<close>

definition three_messages :: "message list" where
  "three_messages =
     [\<lparr>mtype = Some (ascii ''text''), content = Some (ascii '' one ''), url = None, alt = None\<rparr>,
      \<lparr>mtype = Some (ascii ''image''), content = None, url = Some [], alt = Some (ascii ''x'')\<rparr>,
      \<lparr>mtype = Some (ascii ''text''), content = Some (ascii ''two''), url = None, alt = None\<rparr>]"

text \<open>A response that starts a session, and the world right after a choice is submitted.\<close>

definition start_response :: data where
  "start_response =
     \<lparr>error = None, session_id = Some (ascii ''s2''), encounter = Some (Encounter 1),
      state = Some clamp_example, messages = Some three_messages,
      choice_mapped = None, result = None,
      game_over = None, game_over_reason = None, next_encounter = None\<rparr>"

definition choice_sent :: world where
  "choice_sent = \<lparr>ui = sendChoice live_page, starts_pending = 0, choices_pending = 1\<rparr>"

text \<open>
  The level shown for one resource of a state payload as the specification words it:
  the value is taken from \<open>state.resources\<close> (undefined when that is missing too), and
  \<open>spec_level\<close> defaults and clamps it.
\<close>

definition spec_shown :: "state_payload \<Rightarrow> (resources \<Rightarrow> int option) \<Rightarrow> nat \<Rightarrow> nat" where
  "spec_shown st field dflt =
     spec_level (case st_resources st of None \<Rightarrow> None | Some r \<Rightarrow> field r) dflt"

text \<open>
  A game-over response whose reason is the empty string, and a response whose error
  field is the empty string.
\<close>

definition empty_reason_response :: data where
  "empty_reason_response = game_over_response\<lparr>game_over_reason := Some []\<rparr>"

definition empty_error_response :: data where
  "empty_error_response = late_response\<lparr>error := Some []\<rparr>"

section \<open>Properties\<close>

subsection \<open>Strings\<close>

lemma trim_empty_iff: "trim s = [] \<longleftrightarrow> (\<forall>c\<in>set s. is_ws c)"
proof
  assume "trim s = []"
  then have a: "\<forall>x\<in>set (dropWhile is_ws s). is_ws x"
    by (simp add: trim_def dropWhile_eq_Nil_conv)
  have "dropWhile is_ws s = []"
  proof (rule ccontr)
    assume n: "dropWhile is_ws s \<noteq> []"
    then have "\<not> is_ws (hd (dropWhile is_ws s))" by (rule hd_dropWhile)
    moreover have "hd (dropWhile is_ws s) \<in> set (dropWhile is_ws s)" using n by simp
    ultimately show False using a by blast
  qed
  then show "\<forall>c\<in>set s. is_ws c" by (simp add: dropWhile_eq_Nil_conv)
next
  assume "\<forall>c\<in>set s. is_ws c"
  then have "dropWhile is_ws s = []" by (simp add: dropWhile_eq_Nil_conv)
  then show "trim s = []" by (simp add: trim_def del: dropWhile_eq_Nil_conv)
qed

lemma digits_small: "n < 10 \<Longrightarrow> digits n = [48 + n]"
  by (simp add: digits.simps)

subsection \<open>Blank input\<close>

text \<open>
  C2. When the input field holds only whitespace (or nothing), \<open>sendChoice\<close> returns at
  its first check: the page is unchanged, so no request is issued, no chat entry is
  appended and no alert is raised.
\<close>

theorem sendChoice_blank_input_is_noop:
  "\<forall>c\<in>set (chatInput_value s). is_ws c \<Longrightarrow>
     sendChoice s = s \<and> requests (sendChoice s) = requests s
     \<and> chatMessages (sendChoice s) = chatMessages s \<and> alerts (sendChoice s) = alerts s"
  by (simp add: sendChoice_def trim_empty_iff)

theorem sendChoice_blank_input_is_noop_witness:
  "chatInput_value (initial_page\<lparr>chatInput_value := [32, 9, 160]\<rparr>) = [32, 9, 160]
   \<and> is_ws 32 \<and> is_ws 9 \<and> is_ws 160
   \<and> sendChoice (initial_page\<lparr>chatInput_value := [32, 9, 160]\<rparr>)
       = initial_page\<lparr>chatInput_value := [32, 9, 160]\<rparr>
   \<and> requests (sendChoice (initial_page\<lparr>chatInput_value := [32, 9, 160]\<rparr>)) = []"
  using sendChoice_blank_input_is_noop [of "initial_page\<lparr>chatInput_value := [32, 9, 160]\<rparr>"]
  by (simp add: is_ws_def initial_page_def)

subsection \<open>The resource display\<close>

lemma spec_level_le: "dflt \<le> 3 \<Longrightarrow> spec_level v dflt \<le> 3"
  by (auto simp: spec_level_def split: option.splits)

lemma clamp_resource_level:
  "dflt \<le> 3 \<Longrightarrow> clamp_resource v (int dflt) = int (spec_level v dflt)"
  by (auto simp: clamp_resource_def spec_level_def split: option.splits)

lemma num_str_level: "n \<le> 3 \<Longrightarrow> num_str (int n) @ ascii ''/3'' = spec_label n"
  by (simp add: num_str_def digits_small spec_label_def)

lemma updateIconGroup_three:
  "length spans = 3 \<Longrightarrow> n \<le> 3 \<Longrightarrow> updateIconGroup (Some spans) (int n) = Some (spec_icons n)"
proof -
  assume l: "length spans = 3" and n: "n \<le> 3"
  have u: "[0..<3] = [0, 1, 2]" by (simp add: upt_rec)
  from n have "n = 0 \<or> n = 1 \<or> n = 2 \<or> n = 3" by arith
  then show ?thesis
    using l u by (auto simp: updateIconGroup_def spec_icons_def numeral_2_eq_2 numeral_3_eq_3)
qed



subsection \<open>The result entry\<close>

lemma resource_changes_spec:
  "resource_changes r =
     map spec_delta (filter spec_listed
       [(label_health, health r), (label_mental, mental r), (label_money, money r)])"
  by (simp add: resource_changes_def resource_change_def map_filter_simps spec_delta_def
      spec_listed_def split: option.splits)

lemma gadget_text_spec:
  "gadget_text g = (if spec_recognized g then Some (spec_gadget_entry g) else None)"
  by (simp add: gadget_text_def spec_recognized_def spec_gadget_entry_def ascii_def)

lemma spec_gadget_entry_nonempty: "spec_gadget_entry g \<noteq> []"
  by (simp add: spec_gadget_entry_def ascii_def)

lemma map_filter_gadget_text:
  "List.map_filter gadget_text gs = map spec_gadget_entry (filter spec_recognized gs)"
  by (induction gs) (simp_all add: map_filter_simps gadget_text_spec)

lemma gadget_changes_spec:
  "gadget_changes gs = map spec_gadget_entry (filter spec_recognized gs)"
proof -
  have "filter (\<lambda>t. t \<noteq> []) (map spec_gadget_entry xs) = map spec_gadget_entry xs" for xs
    by (induction xs) (simp_all add: spec_gadget_entry_nonempty)
  then show ?thesis by (simp add: gadget_changes_def map_filter_gadget_text)
qed

lemma resultText_spec:
  "resultText r = concat (map (\<lambda>l. l @ [10]) (spec_result_lines r))"
  by (simp add: resultText_def spec_result_lines_def spec_resource_line_def
      spec_gadget_line_def resource_changes_spec gadget_changes_spec Let_def
      split: option.splits)

lemma trim_strips_final_newline:
  assumes "xs \<noteq> []" and "\<not> is_ws (hd xs)" and "\<not> is_ws (last xs)"
  shows "trim (xs @ [10]) = xs"
proof -
  from assms(1) obtain a rest where xs: "xs = a # rest" by (cases xs) auto
  have front: "dropWhile is_ws (xs @ [10]) = xs @ [10]"
    using assms(2) by (simp add: xs)
  have nl: "is_ws 10" by (simp add: is_ws_def)
  from assms(1) obtain b bs where r: "rev xs = b # bs" by (cases "rev xs") auto
  then have "b = last xs" using assms(1) by (metis hd_rev list.sel(1))
  then have tail_eq: "dropWhile is_ws (rev xs) = rev xs"
    using assms(3) by (simp add: r)
  have "trim (xs @ [10]) = rev (dropWhile is_ws (10 # rev xs))"
    by (simp add: trim_def front)
  also have "\<dots> = rev (dropWhile is_ws (rev xs))" using nl by simp
  also have "\<dots> = xs" by (simp add: tail_eq)
  finally show ?thesis .
qed

lemma not_ws_printable: "33 \<le> c \<Longrightarrow> c < 160 \<Longrightarrow> \<not> is_ws c"
  by (auto simp: is_ws_def)

lemma digits_nonempty: "digits n \<noteq> []"
  by (subst digits.simps) simp

lemma last_digits: "last (digits n) = 48 + n mod 10"
  by (subst digits.simps) simp

lemma num_str_nonempty: "num_str i \<noteq> []"
  by (simp add: num_str_def digits_nonempty)

lemma last_num_str_not_ws: "\<not> is_ws (last (num_str i))"
proof -
  have "last (num_str i) = 48 + nat \<bar>i\<bar> mod 10"
    by (simp add: num_str_def digits_nonempty last_digits)
  moreover have "nat \<bar>i\<bar> mod 10 < 10" by simp
  ultimately show ?thesis by (simp add: not_ws_printable)
qed

lemma join_nonempty: "xs \<noteq> [] \<Longrightarrow> last xs \<noteq> [] \<Longrightarrow> join sep xs \<noteq> []"
  by (induction sep xs rule: join.induct) simp_all

lemma last_join: "xs \<noteq> [] \<Longrightarrow> last xs \<noteq> [] \<Longrightarrow> last (join sep xs) = last (last xs)"
  by (induction sep xs rule: join.induct) (simp_all add: join_nonempty)

lemma hd_join: "xs \<noteq> [] \<Longrightarrow> hd xs \<noteq> [] \<Longrightarrow> hd (join sep xs) = hd (hd xs)"
  by (induction sep xs rule: join.induct) simp_all

lemma concat_lines: "ls \<noteq> [] \<Longrightarrow> concat (map (\<lambda>l. l @ [10]) ls) = join [10] ls @ [10]"
  by (induction "[10::nat]" ls rule: join.induct) simp_all

lemma spec_delta_end: "spec_delta lv \<noteq> [] \<and> \<not> is_ws (last (spec_delta lv))"
  by (simp add: spec_delta_def num_str_nonempty last_num_str_not_ws)

lemma spec_gadget_entry_end:
  "spec_gadget_entry g \<noteq> [] \<and> \<not> is_ws (last (spec_gadget_entry g))"
  by (simp add: spec_gadget_entry_def ascii_def is_ws_def)

lemma clean_resource_line: "l \<in> set (spec_resource_line ro) \<Longrightarrow> clean_line l"
proof -
  assume l: "l \<in> set (spec_resource_line ro)"
  then obtain r where ro: "ro = Some r" by (cases ro) (auto simp: spec_resource_line_def)
  define ds where "ds = map spec_delta (filter spec_listed
     [(label_health, health r), (label_mental, mental r), (label_money, money r)])"
  from l ro have ne: "ds \<noteq> []" and eq: "l = label_resource_change @ join (ascii '', '') ds"
    by (auto simp: spec_resource_line_def ds_def Let_def split: if_splits)
  have "last ds \<in> set ds" using ne by simp
  then obtain lv where "last ds = spec_delta lv" by (auto simp: ds_def)
  then have e: "last ds \<noteq> [] \<and> \<not> is_ws (last (last ds))"
    using spec_delta_end by simp
  then have "join (ascii '', '') ds \<noteq> []" and "last (join (ascii '', '') ds) = last (last ds)"
    using ne by (simp_all add: join_nonempty last_join)
  with e show ?thesis
    by (simp add: clean_line_def eq label_resource_change_def is_ws_def)
qed

lemma clean_gadget_line: "l \<in> set (spec_gadget_line go) \<Longrightarrow> clean_line l"
proof -
  assume l: "l \<in> set (spec_gadget_line go)"
  then obtain gs where go: "go = Some gs" by (cases go) (auto simp: spec_gadget_line_def)
  define es where "es = map spec_gadget_entry (filter spec_recognized gs)"
  from l go have ne: "es \<noteq> []" and eq: "l = label_gadget_change @ join (ascii '', '') es"
    by (auto simp: spec_gadget_line_def es_def Let_def split: if_splits)
  have "last es \<in> set es" using ne by simp
  then obtain g where "last es = spec_gadget_entry g" by (auto simp: es_def)
  then have e: "last es \<noteq> [] \<and> \<not> is_ws (last (last es))"
    using spec_gadget_entry_end by simp
  then have "join (ascii '', '') es \<noteq> []" and "last (join (ascii '', '') es) = last (last es)"
    using ne by (simp_all add: join_nonempty last_join)
  with e show ?thesis
    by (simp add: clean_line_def eq label_gadget_change_def is_ws_def)
qed

lemma clean_join:
  "ls \<noteq> [] \<Longrightarrow> \<forall>l\<in>set ls. clean_line l \<Longrightarrow> clean_line (join [10] ls)"
proof (induction "[10::nat]" ls rule: join.induct)
  case 1
  then show ?case by simp
next
  case (2 x)
  then show ?case by simp
next
  case (3 x y ys)
  then have "clean_line (join [10] (y # ys))" and "clean_line x" by simp_all
  then show ?case by (cases x) (simp_all add: clean_line_def)
qed

lemma trim_resultText:
  "spec_result_lines r \<noteq> [] \<Longrightarrow> trim (resultText r) = join [10] (spec_result_lines r)"
proof -
  assume ne: "spec_result_lines r \<noteq> []"
  have "\<forall>l\<in>set (spec_result_lines r). clean_line l"
    using clean_resource_line clean_gadget_line by (auto simp: spec_result_lines_def)
  with ne have "clean_line (join [10] (spec_result_lines r))" by (rule clean_join)
  then show ?thesis
    by (simp add: resultText_spec concat_lines ne trim_strips_final_newline clean_line_def)
qed

lemma resultText_empty_iff: "resultText r = [] \<longleftrightarrow> spec_result_lines r = []"
  by (cases "spec_result_lines r") (simp_all add: resultText_spec)

lemma chat_show_result:
  "chatMessages (show_result d s) =
     chatMessages s @ (case result d of None \<Rightarrow> [] | Some r \<Rightarrow> spec_result_entries r)"
  by (simp add: show_result_def addMessage_def spec_result_entries_def Let_def
      resultText_empty_iff trim_resultText split: option.splits)

lemma chat_show_story: "chatMessages (show_story d s) = chatMessages s @ story_entries d"
  by (simp add: show_story_def story_entries_def addMessage_def Let_def)

lemma chat_updateGameState: "chatMessages (updateGameState st s) = chatMessages s"
  by (simp add: updateGameState_def Let_def split: option.splits)

lemma wraps_before_encounter:
  "wraps (updateGameState st (show_result d (show_story d s))) = wraps s"
  by (simp add: updateGameState_def show_result_def show_story_def addMessage_def Let_def
      split: option.splits)

lemma chat_after_choice:
  "\<not> truthy (error d) \<Longrightarrow>
     chatMessages (sendChoice_resume (Parsed d) s) =
       chatMessages s @ story_entries d
         @ (case result d of None \<Rightarrow> [] | Some r \<Rightarrow> spec_result_entries r)
         @ encounter_entries d (length (wraps s))"
  by (simp add: sendChoice_resume_def Let_def addEncounterBubbles_def encounter_entries_def
      chat_updateGameState chat_show_result chat_show_story wraps_before_encounter
      split: option.splits)

lemma spec_result_lines_le2: "length (spec_result_lines r) \<le> 2"
  by (simp add: spec_result_lines_def spec_resource_line_def spec_gadget_line_def Let_def
      split: option.splits)

text \<open>
  C4. A response with a result object adds exactly the entries below to the transcript:
  between the story entry and the encounter group there is at most one \<open>result\<close> entry,
  made of at most two lines (the non-zero resource deltas, each positive one with a
  \<open>+\<close>; the gadget changes whose action is \<open>acquire\<close> or \<open>lose\<close>), and none when no line
  lists anything.
\<close>

theorem result_entry_format:
  assumes "\<not> truthy (error d)" and "result d = Some r"
  shows "chatMessages (sendChoice_resume (Parsed d) s) =
           chatMessages s @ story_entries d @ spec_result_entries r
             @ encounter_entries d (length (wraps s))
         \<and> length (spec_result_entries r) \<le> 1
         \<and> length (spec_result_lines r) \<le> 2
         \<and> (spec_result_entries r = [] \<longleftrightarrow> resultText r = [])"
  using assms
  by (simp add: chat_after_choice spec_result_lines_le2 resultText_empty_iff
      spec_result_entries_def)

theorem result_entry_format_witness:
  "\<not> truthy (error delta_example)
   \<and> result delta_example
       = Some \<lparr>res_resources = Some \<lparr>health = Some (- 1), mental = None, money = Some 0\<rparr>,
               res_gadgets = None\<rparr>
   \<and> chatMessages (sendChoice_resume (Parsed delta_example) initial_page)
       = [Message (label_resource_change @ label_health @ ascii ''-1'') (ascii ''result'')]"
  using result_entry_format [of delta_example
      "\<lparr>res_resources = Some \<lparr>health = Some (- 1), mental = None, money = Some 0\<rparr>,
        res_gadgets = None\<rparr>" initial_page]
  by (simp add: delta_example_def initial_page_def truthy_def story_entries_def
      story_text_def encounter_entries_def spec_result_entries_def spec_result_lines_def
      spec_resource_line_def spec_gadget_line_def spec_listed_def spec_delta_def
      num_str_def digits_small ascii_def)

lemma gadget_example_text:
  "trim (resultText gadget_example)
     = label_resource_change @ label_health @ ascii ''+2'' @ [10]
       @ label_gadget_change @ ascii ''rope'' @ label_acquired @ ascii ''1), key''
       @ label_lost @ ascii ''2)''"
  by code_simp

subsection \<open>The effects of a choice response\<close>

lemma sendChoice_submits:
  "trim (chatInput_value s) \<noteq> [] \<Longrightarrow> truthy (sessionId (gameState s)) \<Longrightarrow>
     chatInput_disabled (sendChoice s) \<and> sendBtn_disabled (sendChoice s)
     \<and> requests (sendChoice s)
         = requests s @ [ChoiceRequest (the (sessionId (gameState s))) (trim (chatInput_value s))]"
  by (simp add: sendChoice_def addMessage_def Let_def)

lemma gameState_sendChoice: "gameState (sendChoice s) = gameState s"
  by (simp add: sendChoice_def addMessage_def Let_def)

lemma gameState_before_encounter:
  "gameState (updateGameState st (show_result d (show_story d s))) = gameState s"
  by (simp add: updateGameState_def show_result_def show_story_def addMessage_def Let_def
      split: option.splits)

lemma controls_before_encounter:
  "chatInput_disabled (updateGameState st (show_result d (show_story d s))) = chatInput_disabled s
   \<and> sendBtn_disabled (updateGameState st (show_result d (show_story d s))) = sendBtn_disabled s
   \<and> timers (updateGameState st (show_result d (show_story d s))) = timers s"
  by (simp add: updateGameState_def show_result_def show_story_def addMessage_def Let_def
      split: option.splits)

lemma display_before_update:
  "health_icons (show_result d (show_story d s)) = health_icons s
   \<and> mental_icons (show_result d (show_story d s)) = mental_icons s
   \<and> money_icons (show_result d (show_story d s)) = money_icons s"
  by (simp add: show_result_def show_story_def addMessage_def Let_def split: option.splits)

lemma display_after_update:
  "health_value (updateGameState st (show_result d (show_story d s)))
     = health_value (updateGameState st s)
   \<and> mental_value (updateGameState st (show_result d (show_story d s)))
     = mental_value (updateGameState st s)
   \<and> money_value (updateGameState st (show_result d (show_story d s)))
     = money_value (updateGameState st s)
   \<and> gadgets_list (updateGameState st (show_result d (show_story d s)))
     = gadgets_list (updateGameState st s)
   \<and> health_icons (updateGameState st (show_result d (show_story d s)))
     = health_icons (updateGameState st s)
   \<and> mental_icons (updateGameState st (show_result d (show_story d s)))
     = mental_icons (updateGameState st s)
   \<and> money_icons (updateGameState st (show_result d (show_story d s)))
     = money_icons (updateGameState st s)"
  by (cases st)
     (simp_all add: updateGameState_def Let_def display_before_update,
      simp_all add: show_result_def show_story_def addMessage_def Let_def split: option.splits)

lemma display_updateGameState:
  assumes "health_icons s = Some hs" and "length hs = 3"
    and "mental_icons s = Some ms" and "length ms = 3"
    and "money_icons s = Some cs" and "length cs = 3"
  shows "health_value (updateGameState (Some st) s) = spec_label (spec_shown st health 3)
    \<and> mental_value (updateGameState (Some st) s) = spec_label (spec_shown st mental 3)
    \<and> money_value (updateGameState (Some st) s) = spec_label (spec_shown st money 0)
    \<and> health_icons (updateGameState (Some st) s) = Some (spec_icons (spec_shown st health 3))
    \<and> mental_icons (updateGameState (Some st) s) = Some (spec_icons (spec_shown st mental 3))
    \<and> money_icons (updateGameState (Some st) s) = Some (spec_icons (spec_shown st money 0))"
proof -
  have c3: "\<And>v. clamp_resource v 3 = int (spec_level v 3)"
    using clamp_resource_level [of 3] by simp
  have c0: "\<And>v. clamp_resource v 0 = int (spec_level v 0)"
    using clamp_resource_level [of 0] by simp
  have l3: "\<And>v. spec_level v 3 \<le> 3" by (simp add: spec_level_le)
  have l0: "\<And>v. spec_level v 0 \<le> 3" by (simp add: spec_level_le)
  show ?thesis
    using assms
    by (simp add: updateGameState_def Let_def c3 c0 num_str_level l3 l0 updateIconGroup_three
        spec_shown_def no_resources_def split: option.splits)
qed

text \<open>
  C5, the claim as stated, fails: a game-over response whose reason is supplied but is
  the empty string shows the default text, not the supplied reason.
\<close>

theorem empty_reason_shows_default:
  "\<not> truthy (error empty_reason_response)
   \<and> game_over empty_reason_response = Some True
   \<and> game_over_reason empty_reason_response = Some []
   \<and> game_over_reason_text
        (sendChoice_resume (Parsed empty_reason_response) (sendChoice live_page))
       = msg_game_ended
   \<and> msg_game_ended \<noteq> []"
  by (simp add: sendChoice_resume_def empty_reason_response_def game_over_response_def
      truthy_def Let_def str_or_def msg_game_ended_def)

text \<open>
  C5 as amended. A response without error whose \<open>game_over\<close> is true switches to the
  game-over view and shows the supplied reason when that is a non-empty string, the
  default text when the reason is missing or empty. Processing stops there: the
  session, the pending timers and the encounter groups are as before, no group is
  appended even though a next encounter may be present, and the input controls keep
  the state the submission gave them, disabled. Before the switch the resource display
  is synchronised from the response's state: on a page whose icon groups have three
  spans each, every resource shows the level of that state (label \<open>N/3\<close>, \<open>N\<close> filled
  icons), and the display is left as it is when the response has no state.
\<close>

theorem game_over_stops_processing:
  assumes "\<not> truthy (error d)" and "game_over d = Some True"
    and "trim (chatInput_value s0) \<noteq> []" and "truthy (sessionId (gameState s0))"
    and "health_icons s = Some hs" and "length hs = 3"
    and "mental_icons s = Some ms" and "length ms = 3"
    and "money_icons s = Some cs" and "length cs = 3"
  shows "gameOverScreen_display (sendChoice_resume (Parsed d) s) = Block
    \<and> gameScreen_display (sendChoice_resume (Parsed d) s) = DNone
    \<and> game_over_reason_text (sendChoice_resume (Parsed d) s)
        = (case game_over_reason d of None \<Rightarrow> msg_game_ended
           | Some t \<Rightarrow> if t = [] then msg_game_ended else t)
    \<and> chatInput_disabled (sendChoice_resume (Parsed d) s) = chatInput_disabled s
    \<and> sendBtn_disabled (sendChoice_resume (Parsed d) s) = sendBtn_disabled s
    \<and> chatInput_disabled (sendChoice_resume (Parsed d) (sendChoice s0))
    \<and> sendBtn_disabled (sendChoice_resume (Parsed d) (sendChoice s0))
    \<and> gameState (sendChoice_resume (Parsed d) s) = gameState s
    \<and> timers (sendChoice_resume (Parsed d) s) = timers s
    \<and> wraps (sendChoice_resume (Parsed d) s) = wraps s
    \<and> chatMessages (sendChoice_resume (Parsed d) s)
        = chatMessages s @ story_entries d
            @ (case result d of None \<Rightarrow> [] | Some r \<Rightarrow> spec_result_entries r)
    \<and> health_value (sendChoice_resume (Parsed d) s)
        = (case state d of None \<Rightarrow> health_value s
           | Some st \<Rightarrow> spec_label (spec_shown st health 3))
    \<and> mental_value (sendChoice_resume (Parsed d) s)
        = (case state d of None \<Rightarrow> mental_value s
           | Some st \<Rightarrow> spec_label (spec_shown st mental 3))
    \<and> money_value (sendChoice_resume (Parsed d) s)
        = (case state d of None \<Rightarrow> money_value s
           | Some st \<Rightarrow> spec_label (spec_shown st money 0))
    \<and> health_icons (sendChoice_resume (Parsed d) s)
        = (case state d of None \<Rightarrow> health_icons s
           | Some st \<Rightarrow> Some (spec_icons (spec_shown st health 3)))
    \<and> mental_icons (sendChoice_resume (Parsed d) s)
        = (case state d of None \<Rightarrow> mental_icons s
           | Some st \<Rightarrow> Some (spec_icons (spec_shown st mental 3)))
    \<and> money_icons (sendChoice_resume (Parsed d) s)
        = (case state d of None \<Rightarrow> money_icons s
           | Some st \<Rightarrow> Some (spec_icons (spec_shown st money 0)))"
proof -
  have r: "sendChoice_resume (Parsed d) p
      = (updateGameState (state d) (show_result d (show_story d p)))
          \<lparr>gameOverScreen_display := Block, gameScreen_display := DNone,
           game_over_reason_text := str_or (game_over_reason d) msg_game_ended\<rparr>" for p
    using assms(1,2) by (simp add: sendChoice_resume_def Let_def)
  have sub: "chatInput_disabled (sendChoice s0) \<and> sendBtn_disabled (sendChoice s0)"
    using assms(3,4) by (simp add: sendChoice_submits)
  have none: "updateGameState None s = s"
    by (simp add: updateGameState_def)
  note shown = display_updateGameState [OF assms(5-10)]
  have disp: "health_value (updateGameState (state d) s)
        = (case state d of None \<Rightarrow> health_value s
           | Some st \<Rightarrow> spec_label (spec_shown st health 3))
    \<and> mental_value (updateGameState (state d) s)
        = (case state d of None \<Rightarrow> mental_value s
           | Some st \<Rightarrow> spec_label (spec_shown st mental 3))
    \<and> money_value (updateGameState (state d) s)
        = (case state d of None \<Rightarrow> money_value s
           | Some st \<Rightarrow> spec_label (spec_shown st money 0))
    \<and> health_icons (updateGameState (state d) s)
        = (case state d of None \<Rightarrow> health_icons s
           | Some st \<Rightarrow> Some (spec_icons (spec_shown st health 3)))
    \<and> mental_icons (updateGameState (state d) s)
        = (case state d of None \<Rightarrow> mental_icons s
           | Some st \<Rightarrow> Some (spec_icons (spec_shown st mental 3)))
    \<and> money_icons (updateGameState (state d) s)
        = (case state d of None \<Rightarrow> money_icons s
           | Some st \<Rightarrow> Some (spec_icons (spec_shown st money 0)))"
    by (cases "state d") (simp_all add: none shown)
  have rest: "gameOverScreen_display (sendChoice_resume (Parsed d) s) = Block
    \<and> gameScreen_display (sendChoice_resume (Parsed d) s) = DNone
    \<and> game_over_reason_text (sendChoice_resume (Parsed d) s)
        = (case game_over_reason d of None \<Rightarrow> msg_game_ended
           | Some t \<Rightarrow> if t = [] then msg_game_ended else t)
    \<and> chatInput_disabled (sendChoice_resume (Parsed d) s) = chatInput_disabled s
    \<and> sendBtn_disabled (sendChoice_resume (Parsed d) s) = sendBtn_disabled s
    \<and> chatInput_disabled (sendChoice_resume (Parsed d) (sendChoice s0))
    \<and> sendBtn_disabled (sendChoice_resume (Parsed d) (sendChoice s0))
    \<and> gameState (sendChoice_resume (Parsed d) s) = gameState s
    \<and> timers (sendChoice_resume (Parsed d) s) = timers s
    \<and> wraps (sendChoice_resume (Parsed d) s) = wraps s
    \<and> chatMessages (sendChoice_resume (Parsed d) s)
        = chatMessages s @ story_entries d
            @ (case result d of None \<Rightarrow> [] | Some r \<Rightarrow> spec_result_entries r)"
    using sub
    by (simp add: r chat_updateGameState chat_show_result chat_show_story
        gameState_before_encounter controls_before_encounter
        wraps_before_encounter str_or_def split: option.splits)
  have same: "health_value (sendChoice_resume (Parsed d) s)
        = health_value (updateGameState (state d) s)
    \<and> mental_value (sendChoice_resume (Parsed d) s)
        = mental_value (updateGameState (state d) s)
    \<and> money_value (sendChoice_resume (Parsed d) s)
        = money_value (updateGameState (state d) s)
    \<and> health_icons (sendChoice_resume (Parsed d) s)
        = health_icons (updateGameState (state d) s)
    \<and> mental_icons (sendChoice_resume (Parsed d) s)
        = mental_icons (updateGameState (state d) s)
    \<and> money_icons (sendChoice_resume (Parsed d) s)
        = money_icons (updateGameState (state d) s)"
    by (simp add: r display_after_update)
  from rest same disp show ?thesis by simp
qed

theorem game_over_stops_processing_witness:
  "\<not> truthy (error game_over_response)
   \<and> game_over game_over_response = Some True
   \<and> trim (chatInput_value live_page) = ascii ''go''
   \<and> truthy (sessionId (gameState live_page))
   \<and> health_icons (sendChoice live_page) = Some [False, False, False]
   \<and> mental_icons (sendChoice live_page) = Some [False, False, False]
   \<and> money_icons (sendChoice live_page) = Some [False, False, False]
   \<and> game_over_reason_text (sendChoice_resume (Parsed game_over_response) (sendChoice live_page))
       = msg_game_ended
   \<and> gameOverScreen_display (sendChoice_resume (Parsed game_over_response) (sendChoice live_page))
       = Block
   \<and> gameScreen_display (sendChoice_resume (Parsed game_over_response) (sendChoice live_page))
       = DNone
   \<and> chatInput_disabled (sendChoice_resume (Parsed game_over_response) (sendChoice live_page))
   \<and> sendBtn_disabled (sendChoice_resume (Parsed game_over_response) (sendChoice live_page))
   \<and> currentEncounter (gameState
         (sendChoice_resume (Parsed game_over_response) (sendChoice live_page)))
       = Some (Encounter 1)
   \<and> chatMessages (sendChoice_resume (Parsed game_over_response) (sendChoice live_page))
       = [Message (ascii ''go'') (ascii ''player'')]
   \<and> timers (sendChoice_resume (Parsed game_over_response) (sendChoice live_page)) = []
   \<and> health_value (sendChoice_resume (Parsed game_over_response) (sendChoice live_page))
       = ascii ''0/3''
   \<and> mental_value (sendChoice_resume (Parsed game_over_response) (sendChoice live_page))
       = ascii ''3/3''
   \<and> money_value (sendChoice_resume (Parsed game_over_response) (sendChoice live_page))
       = ascii ''2/3''
   \<and> health_icons (sendChoice_resume (Parsed game_over_response) (sendChoice live_page))
       = Some [True, True, True]
   \<and> mental_icons (sendChoice_resume (Parsed game_over_response) (sendChoice live_page))
       = Some [False, False, False]
   \<and> money_icons (sendChoice_resume (Parsed game_over_response) (sendChoice live_page))
       = Some [False, False, True]"
proof -
  have a1: "\<not> truthy (error game_over_response)"
    by (simp add: game_over_response_def truthy_def)
  have a2: "game_over game_over_response = Some True"
    by (simp add: game_over_response_def)
  have t: "trim (chatInput_value live_page) = ascii ''go''"
    by (simp add: live_page_def initial_page_def trim_def ascii_def is_ws_def)
  have a3: "trim (chatInput_value live_page) \<noteq> []"
    by (simp add: t ascii_def)
  have a4: "truthy (sessionId (gameState live_page))"
    by (simp add: live_page_def truthy_def ascii_def)
  have sent: "sendChoice live_page
      = live_page\<lparr>chatMessages := [Message (ascii ''go'') (ascii ''player'')],
          chatInput_value := [], chatInput_disabled := True, sendBtn_disabled := True,
          requests := [ChoiceRequest (ascii ''s1'') (ascii ''go'')]\<rparr>"
    using a4 by (simp add: sendChoice_def t Let_def addMessage_def)
      (simp add: live_page_def initial_page_def ascii_def)
  have i1: "health_icons (sendChoice live_page) = Some [False, False, False]"
    and i2: "mental_icons (sendChoice live_page) = Some [False, False, False]"
    and i3: "money_icons (sendChoice live_page) = Some [False, False, False]"
    and c: "chatMessages (sendChoice live_page) = [Message (ascii ''go'') (ascii ''player'')]"
    and tm: "timers (sendChoice live_page) = []"
    by (simp_all add: sent) (simp_all add: live_page_def initial_page_def)
  have l: "length [False, False, False] = 3" by simp
  have r: "game_over_reason game_over_response = None"
    and st: "state game_over_response = Some clamp_example"
    and res: "result game_over_response = None"
    and story: "story_entries game_over_response = []"
    by (simp_all add: game_over_response_def story_entries_def story_text_def)
  have g: "currentEncounter (gameState (sendChoice live_page)) = Some (Encounter 1)"
    by (simp add: gameState_sendChoice) (simp add: live_page_def)
  have lv: "spec_label (spec_shown clamp_example health 3) = ascii ''0/3''"
    "spec_label (spec_shown clamp_example mental 3) = ascii ''3/3''"
    "spec_label (spec_shown clamp_example money 0) = ascii ''2/3''"
    "spec_icons (spec_shown clamp_example health 3) = [True, True, True]"
    "spec_icons (spec_shown clamp_example mental 3) = [False, False, False]"
    "spec_icons (spec_shown clamp_example money 0) = [False, False, True]"
    by (simp_all add: spec_label_def spec_shown_def spec_level_def spec_icons_def
        clamp_example_def ascii_def numeral_2_eq_2 numeral_3_eq_3)
  show ?thesis
    using game_over_stops_processing [OF a1 a2 a3 a4 i1 l i2 l i3 l] a1 a2 a4
    by (simp add: t r st res story g lv i1 i2 i3 c tm sendChoice_submits [OF a3 a4])
qed

subsection \<open>Failed submissions\<close>

text \<open>
  C6, the claim as stated, fails: a response that carries an error field holding the
  empty string is processed as a success. No \<open>system\<close> entry is appended, and
  \<open>currentEncounter\<close> of the session is replaced by the response's next encounter.
\<close>

theorem empty_error_is_a_success:
  "error empty_error_response = Some []
   \<and> currentEncounter (gameState (sendChoice live_page)) = Some (Encounter 1)
   \<and> currentEncounter (gameState
        (sendChoice_resume (Parsed empty_error_response) (sendChoice live_page)))
       = Some (Encounter 2)
   \<and> chatMessages (sendChoice_resume (Parsed empty_error_response) (sendChoice live_page))
       = [Message (ascii ''go'') (ascii ''player''), Message (ascii ''late'') (ascii ''story''),
          Group 0]"
  by (simp add: sendChoice_resume_def sendChoice_def live_page_def
      initial_page_def empty_error_response_def late_response_def truthy_def Let_def
      show_story_def story_text_def str_or_def show_result_def updateGameState_def
      addEncounterBubbles_def addMessage_def trim_def is_ws_def ascii_def)

text \<open>
  C6 as amended. When the request fails (\<open>Failed\<close>) or the response reports an error
  that is a non-empty string, the session record is the one from before the
  submission, the error is appended to the transcript as a \<open>system\<close> entry, and both
  input controls are enabled again. An error field that is the empty string counts as
  no error: the response is processed as if the field were missing.
\<close>

theorem failed_choice_keeps_session:
  assumes "r = Failed \<or> (\<exists>d. r = Parsed d \<and> truthy (error d))"
  shows "gameState (sendChoice_resume r s) = gameState s
    \<and> gameState (sendChoice_resume r (sendChoice s0)) = gameState s0
    \<and> chatMessages (sendChoice_resume r s)
        = chatMessages s
            @ [Message (case r of Failed \<Rightarrow> msg_error_retry | Parsed d \<Rightarrow> the (error d))
                 (ascii ''system'')]
    \<and> \<not> chatInput_disabled (sendChoice_resume r s)
    \<and> \<not> sendBtn_disabled (sendChoice_resume r s)
    \<and> truthy (Some e) = (e \<noteq> [])
    \<and> sendChoice_resume (Parsed (d0\<lparr>error := Some []\<rparr>)) s
        = sendChoice_resume (Parsed (d0\<lparr>error := None\<rparr>)) s"
proof -
  have "sendChoice_resume (Parsed (d0\<lparr>error := Some []\<rparr>)) s
        = sendChoice_resume (Parsed (d0\<lparr>error := None\<rparr>)) s"
    by (simp add: sendChoice_resume_def truthy_def show_story_def show_result_def
        story_text_def Let_def)
  then show ?thesis
    using assms
    by (auto simp: sendChoice_resume_def addMessage_def gameState_sendChoice truthy_def)
qed

theorem failed_choice_keeps_session_witness:
  "truthy (error error_response)
   \<and> gameState (sendChoice_resume (Parsed error_response) (sendChoice live_page))
       = gameState live_page
   \<and> chatMessages (sendChoice_resume (Parsed error_response) (sendChoice live_page))
       = [Message (ascii ''go'') (ascii ''player''), Message (ascii ''bad'') (ascii ''system'')]
   \<and> \<not> chatInput_disabled (sendChoice_resume (Parsed error_response) (sendChoice live_page))
   \<and> \<not> sendBtn_disabled (sendChoice_resume (Parsed error_response) (sendChoice live_page))
   \<and> gameState (sendChoice_resume Failed (sendChoice live_page)) = gameState live_page
   \<and> chatMessages (sendChoice_resume Failed (sendChoice live_page))
       = [Message (ascii ''go'') (ascii ''player''), Message msg_error_retry (ascii ''system'')]
   \<and> \<not> chatInput_disabled (sendChoice_resume Failed (sendChoice live_page))"
proof -
  have e: "truthy (error error_response)"
    by (simp add: error_response_def truthy_def ascii_def)
  then have h: "Parsed error_response = Failed
      \<or> (\<exists>d. Parsed error_response = Parsed d \<and> truthy (error d))"
    by simp
  have f: "Failed = Failed \<or> (\<exists>d. Failed = Parsed d \<and> truthy (error d))"
    by simp
  have c: "chatMessages (sendChoice live_page) = [Message (ascii ''go'') (ascii ''player'')]"
    by (simp add: sendChoice_def live_page_def initial_page_def addMessage_def truthy_def
        trim_def ascii_def is_ws_def Let_def)
  have m: "the (error error_response) = ascii ''bad''"
    by (simp add: error_response_def)
  show ?thesis
    using failed_choice_keeps_session [OF h, of "sendChoice live_page" live_page]
      failed_choice_keeps_session [OF f, of "sendChoice live_page" live_page] e
    by (simp add: c m gameState_sendChoice)
qed

subsection \<open>The staggered reveal\<close>

lemma schedule_upt:
  "schedule t w items =
     map (\<lambda>i. \<lparr>registered_at = t, delay = i * 500, wrap = w, item = items ! i\<rparr>)
       [0..<length items]"
  by (rule nth_equalityI) (simp_all add: schedule_def nth_enumerate_eq)

lemma timers_addEncounterBubbles:
  "timers (addEncounterBubbles items s) = timers s @ schedule (now s) (length (wraps s)) items"
  by (simp add: addEncounterBubbles_def schedule_def Let_def)

lemma sorted_due_schedule: "sorted (map due (schedule t w items))"
proof -
  have "map due (schedule t w items) = map (\<lambda>i. t + i * 500) [0..<length items]"
    by (simp add: schedule_upt due_def comp_def)
  moreover have "sorted (map (\<lambda>i. t + i * 500) [0..<k])" for k
    by (induction k) (auto simp: sorted_append)
  ultimately show ?thesis by simp
qed

lemma filter_due_schedule:
  "filter (\<lambda>x. due x \<le> t + n) (schedule t w items)
     = schedule t w (take (Suc (n div 500)) items)"
proof -
  let ?g = "\<lambda>i. \<lparr>registered_at = t, delay = i * 500, wrap = w, item = items ! i\<rparr>"
  have f: "filter (\<lambda>x. due x \<le> t + n) (map ?g [0..<k])
      = map ?g [0..<min k (Suc (n div 500))]" for k
  proof (induction k)
    case 0
    then show ?case by simp
  next
    case (Suc k)
    show ?case
    proof (cases "k \<le> n div 500")
      case True
      then have "k * 500 \<le> n" by arith
      moreover from True have "min k (Suc (n div 500)) = k"
        and "min (Suc k) (Suc (n div 500)) = Suc k" by simp_all
      ultimately show ?thesis using Suc by (simp add: due_def)
    next
      case False
      then have "\<not> k * 500 \<le> n" by arith
      moreover from False have "min k (Suc (n div 500)) = Suc (n div 500)"
        and "min (Suc k) (Suc (n div 500)) = Suc (n div 500)" by simp_all
      ultimately show ?thesis using Suc by (simp add: due_def)
    qed
  qed
  have "schedule t w (take (Suc (n div 500)) items)
      = map ?g [0..<min (length items) (Suc (n div 500))]"
    by (simp add: schedule_upt)
  then show ?thesis by (simp add: schedule_upt [of t w items] f)
qed

lemma item_schedule: "map item (schedule t w items) = items"
  by (simp add: schedule_upt comp_def map_nth)

lemma wrap_schedule: "filter (\<lambda>x. wrap x = w) (schedule t w items) = schedule t w items"
  by (simp add: schedule_upt)

lemma fire_effect:
  "w < length (wraps p) \<Longrightarrow>
     length (wraps (fire x p)) = length (wraps p)
     \<and> wraps (fire x p) ! w
         = wraps p ! w @ (if wrap x = w then List.map_filter render_item [item x] else [])"
  by (simp add: fire_def bubble_callback_def map_filter_simps nth_list_update
      split: option.splits)

lemma fold_fire_effect:
  "w < length (wraps p) \<Longrightarrow>
     length (wraps (fold fire ts p)) = length (wraps p)
     \<and> wraps (fold fire ts p) ! w
         = wraps p ! w
             @ List.map_filter render_item (map item (filter (\<lambda>x. wrap x = w) ts))"
proof (induction ts arbitrary: p)
  case Nil
  then show ?case by (simp add: map_filter_simps)
next
  case (Cons x ts)
  from Cons.prems have a: "length (wraps (fire x p)) = length (wraps p)"
    and b: "wraps (fire x p) ! w
         = wraps p ! w @ (if wrap x = w then List.map_filter render_item [item x] else [])"
    using fire_effect by blast+
  from Cons.prems a have "w < length (wraps (fire x p))" by simp
  from Cons.IH [OF this] show ?case
    by (simp add: a b map_filter_simps split: option.splits)
qed

lemma trim_Nil: "trim [] = []"
  by (simp add: trim_def)

lemma render_item_spec: "render_item m = spec_node m"
  by (simp add: render_item_def spec_node_def str_or_def Let_def trim_Nil
      split: option.splits)

lemma revealed_nodes:
  assumes "items \<noteq> []" and "\<forall>x\<in>set (timers s). wrap x < length (wraps s)"
  shows "wraps (elapse n (addEncounterBubbles items s)) ! length (wraps s)
           = List.map_filter spec_node (take (Suc (n div 500)) items)"
proof -
  let ?w = "length (wraps s)"
  let ?s1 = "addEncounterBubbles items s"
  let ?ready = "filter (\<lambda>x. due x \<le> now s + n) (timers ?s1)"
  have now1: "now ?s1 = now s" and wraps1: "wraps ?s1 = wraps s @ [[]]"
    using assms(1) by (simp_all add: addEncounterBubbles_def Let_def)
  have old: "filter (\<lambda>x. wrap x = ?w) (timers s) = []"
    using assms(2) by (auto simp: filter_empty_conv)
  have "filter (\<lambda>x. wrap x = ?w) (sort_key due ?ready)
      = sort_key due (filter (\<lambda>x. due x \<le> now s + n) (filter (\<lambda>x. wrap x = ?w) (timers ?s1)))"
    by (simp add: filter_sort) (simp add: conj_commute)
  also have "filter (\<lambda>x. wrap x = ?w) (timers ?s1) = schedule (now s) ?w items"
    by (simp add: timers_addEncounterBubbles old wrap_schedule)
  also have "sort_key due (filter (\<lambda>x. due x \<le> now s + n) (schedule (now s) ?w items))
      = schedule (now s) ?w (take (Suc (n div 500)) items)"
    by (simp add: filter_due_schedule sort_key_id_if_sorted sorted_due_schedule)
  finally have sel: "map item (filter (\<lambda>x. wrap x = ?w) (sort_key due ?ready))
      = take (Suc (n div 500)) items"
    by (simp add: item_schedule)
  let ?p = "?s1\<lparr>now := now s + n,
      timers := filter (\<lambda>x. \<not> due x \<le> now s + n) (timers ?s1)\<rparr>"
  have "?w < length (wraps ?p)" by (simp add: wraps1)
  from fold_fire_effect [OF this, of "sort_key due ?ready"]
  have "wraps (fold fire (sort_key due ?ready) ?p) ! ?w
      = List.map_filter render_item (take (Suc (n div 500)) items)"
    by (simp add: sel wraps1)
  moreover have "List.map_filter render_item xs = List.map_filter spec_node xs" for xs
    by (simp add: map_filter_def render_item_spec)
  ultimately show ?thesis
    by (simp add: elapse_def Let_def now1)
qed

lemma frame_fold_fire:
  "timers (fold fire ts p) = timers p \<and> chatMessages (fold fire ts p) = chatMessages p"
  by (induction ts arbitrary: p)
     (simp_all add: fire_def bubble_callback_def split: option.splits)

lemma timers_elapse:
  "timers (elapse n p) = filter (\<lambda>x. \<not> due x \<le> now p + n) (timers p)"
  by (simp add: elapse_def Let_def frame_fold_fire)

lemma all_due_schedule:
  "items \<noteq> [] \<Longrightarrow>
     filter (\<lambda>x. \<not> due x \<le> t + n) (schedule t w items) = []
       \<longleftrightarrow> (length items - 1) * 500 \<le> n"
proof -
  assume ne: "items \<noteq> []"
  have "filter (\<lambda>x. \<not> due x \<le> t + n) (schedule t w items) = []
      \<longleftrightarrow> (\<forall>i<length items. i * 500 \<le> n)"
    by (auto simp: schedule_upt filter_empty_conv due_def)
  also have "\<dots> \<longleftrightarrow> (length items - 1) * 500 \<le> n"
  proof
    assume "\<forall>i<length items. i * 500 \<le> n"
    moreover have "length items - 1 < length items" using ne by simp
    ultimately show "(length items - 1) * 500 \<le> n" by blast
  next
    assume a: "(length items - 1) * 500 \<le> n"
    show "\<forall>i<length items. i * 500 \<le> n"
    proof (intro allI impI)
      fix i assume "i < length items"
      then have "i * 500 \<le> (length items - 1) * 500" by simp
      with a show "i * 500 \<le> n" by simp
    qed
  qed
  finally show ?thesis .
qed

text \<open>
  C7. A call with \<open>N\<close> items registers \<open>N\<close> timers, all at the time of the call; the
  timer of the item at index \<open>i\<close> has delay \<open>i * 500\<close>. They come due in the order of the
  indices, the last one has delay \<open>(N - 1) * 500\<close>, and (when nothing else is pending)
  no timer is left exactly from \<open>(N - 1) * 500\<close> time units after the call.
\<close>

theorem stagger_from_call_time:
  assumes "items \<noteq> []"
  shows "timers (addEncounterBubbles items s)
           = timers s @ map (\<lambda>i. \<lparr>registered_at = now s, delay = i * 500,
                                   wrap = length (wraps s), item = items ! i\<rparr>)
                          [0..<length items]
    \<and> sort_key due (drop (length (timers s)) (timers (addEncounterBubbles items s)))
        = drop (length (timers s)) (timers (addEncounterBubbles items s))
    \<and> delay (last (timers (addEncounterBubbles items s))) = (length items - 1) * 500
    \<and> (timers s = [] \<longrightarrow>
         (timers (elapse n (addEncounterBubbles items s)) = []
            \<longleftrightarrow> (length items - 1) * 500 \<le> n))"
proof -
  let ?new = "schedule (now s) (length (wraps s)) items"
  have n1: "now (addEncounterBubbles items s) = now s"
    by (simp add: addEncounterBubbles_def Let_def)
  have a: "timers (addEncounterBubbles items s)
           = timers s @ map (\<lambda>i. \<lparr>registered_at = now s, delay = i * 500,
                                   wrap = length (wraps s), item = items ! i\<rparr>)
                          [0..<length items]"
    by (simp add: timers_addEncounterBubbles schedule_upt)
  have b: "drop (length (timers s)) (timers (addEncounterBubbles items s)) = ?new"
    by (simp add: timers_addEncounterBubbles)
  have c: "sort_key due ?new = ?new"
    by (simp add: sort_key_id_if_sorted sorted_due_schedule)
  have l: "[0..<length items] \<noteq> []" using assms by simp
  have "delay (last ?new) = (length items - 1) * 500"
    using assms by (simp add: schedule_upt last_map l)
  moreover have "?new \<noteq> []"
    using assms by (simp add: schedule_upt)
  ultimately have d: "delay (last (timers (addEncounterBubbles items s)))
      = (length items - 1) * 500"
    by (simp add: timers_addEncounterBubbles)
  have e: "timers s = [] \<longrightarrow>
         (timers (elapse n (addEncounterBubbles items s)) = []
            \<longleftrightarrow> (length items - 1) * 500 \<le> n)"
    using assms by (simp add: timers_elapse n1 timers_addEncounterBubbles all_due_schedule)
  show ?thesis
  proof (intro conjI)
    show "sort_key due (drop (length (timers s)) (timers (addEncounterBubbles items s)))
        = drop (length (timers s)) (timers (addEncounterBubbles items s))"
      by (simp only: b c)
  qed (rule a d e)+
qed

theorem stagger_from_call_time_witness:
  "three_messages \<noteq> []
   \<and> map delay (timers (addEncounterBubbles three_messages initial_page)) = [0, 500, 1000]
   \<and> map registered_at (timers (addEncounterBubbles three_messages initial_page)) = [0, 0, 0]
   \<and> map item (timers (addEncounterBubbles three_messages initial_page)) = three_messages
   \<and> timers (elapse 1000 (addEncounterBubbles three_messages initial_page)) = []"
proof -
  have ne: "three_messages \<noteq> []" and len: "length three_messages = 3"
    by (simp_all add: three_messages_def)
  have u: "[0..<3] = [0, 1, 2]" by (simp add: upt_rec)
  have t: "timers initial_page = []" and w: "wraps initial_page = []"
    and n: "now initial_page = 0"
    by (simp_all add: initial_page_def)
  show ?thesis
    using stagger_from_call_time [OF ne, of initial_page 1000] ne
    by (simp add: len u t w n) (simp add: three_messages_def)
qed

subsection \<open>The nodes of an encounter group\<close>

text \<open>
  C8. Once every timer of a call has come due, the group that the call appended to the
  transcript holds exactly the nodes of the items, in the order of the items: none for
  an image item with a missing or empty URL, none for another item whose content is
  empty after trimming, and one node for every other item.
\<close>

theorem group_nodes_after_reveal:
  assumes "items \<noteq> []" and "\<forall>x\<in>set (timers s). wrap x < length (wraps s)"
    and "(length items - 1) * 500 \<le> n"
  shows "wraps (elapse n (addEncounterBubbles items s)) ! length (wraps s)
           = List.map_filter spec_node items
    \<and> chatMessages (elapse n (addEncounterBubbles items s))
        = chatMessages s @ [Group (length (wraps s))]"
proof -
  from assms(1,3) have "length items \<le> Suc (n div 500)" by (cases items) auto
  then have "take (Suc (n div 500)) items = items" by simp
  moreover have "chatMessages (elapse n (addEncounterBubbles items s))
      = chatMessages s @ [Group (length (wraps s))]"
    using assms(1) by (simp add: elapse_def Let_def frame_fold_fire addEncounterBubbles_def)
  ultimately show ?thesis
    using revealed_nodes [OF assms(1,2), of n] by simp
qed

theorem group_nodes_after_reveal_witness:
  "three_messages \<noteq> []
   \<and> timers initial_page = []
   \<and> (length three_messages - 1) * 500 = 1000
   \<and> wraps (elapse 1000 (addEncounterBubbles three_messages initial_page))
        ! length (wraps initial_page)
       = [Bubble (ascii ''one''), Bubble (ascii ''two'')]
   \<and> length (wraps (elapse 1000 (addEncounterBubbles three_messages initial_page))
        ! length (wraps initial_page)) = 2"
proof -
  have ne: "three_messages \<noteq> []" and len: "length three_messages = 3"
    by (simp_all add: three_messages_def)
  have t: "timers initial_page = []"
    by (simp add: initial_page_def)
  then have inv: "\<forall>x\<in>set (timers initial_page). wrap x < length (wraps initial_page)"
    by simp
  have n: "(length three_messages - 1) * 500 \<le> 1000" by (simp add: len)
  have nodes: "List.map_filter spec_node three_messages
      = [Bubble (ascii ''one''), Bubble (ascii ''two'')]"
    by (simp add: three_messages_def map_filter_simps spec_node_def trim_def is_ws_def
        ascii_def)
  show ?thesis
    using group_nodes_after_reveal [OF ne inv n] ne t
    by (simp add: nodes len)
qed

subsection \<open>What the handlers request and which controls they touch\<close>

lemma frame_elapse:
  "requests (elapse n s) = requests s
   \<and> startBtn_disabled (elapse n s) = startBtn_disabled s
   \<and> chatInput_disabled (elapse n s) = chatInput_disabled s
   \<and> sendBtn_disabled (elapse n s) = sendBtn_disabled s"
proof -
  have "requests (fold fire ts p) = requests p
      \<and> startBtn_disabled (fold fire ts p) = startBtn_disabled p
      \<and> chatInput_disabled (fold fire ts p) = chatInput_disabled p
      \<and> sendBtn_disabled (fold fire ts p) = sendBtn_disabled p" for ts p
    by (induction ts arbitrary: p)
       (simp_all add: fire_def bubble_callback_def split: option.splits)
  then show ?thesis by (simp add: elapse_def Let_def)
qed

lemma frame_updateGameState:
  "requests (updateGameState st s) = requests s
   \<and> startBtn_disabled (updateGameState st s) = startBtn_disabled s
   \<and> chatInput_disabled (updateGameState st s) = chatInput_disabled s
   \<and> sendBtn_disabled (updateGameState st s) = sendBtn_disabled s
   \<and> gameState (updateGameState st s) = gameState s
   \<and> gameScreen_display (updateGameState st s) = gameScreen_display s"
  by (simp add: updateGameState_def Let_def split: option.splits)

lemma frame_addEncounterBubbles:
  "requests (addEncounterBubbles ms s) = requests s
   \<and> startBtn_disabled (addEncounterBubbles ms s) = startBtn_disabled s
   \<and> chatInput_disabled (addEncounterBubbles ms s) = chatInput_disabled s
   \<and> sendBtn_disabled (addEncounterBubbles ms s) = sendBtn_disabled s
   \<and> gameState (addEncounterBubbles ms s) = gameState s
   \<and> gameScreen_display (addEncounterBubbles ms s) = gameScreen_display s"
  by (simp add: addEncounterBubbles_def Let_def)

lemma frame_startBtn_resume:
  "requests (startBtn_resume r s) = requests s
   \<and> chatInput_disabled (startBtn_resume r s) = chatInput_disabled s
   \<and> sendBtn_disabled (startBtn_resume r s) = sendBtn_disabled s"
  by (simp add: startBtn_resume_def frame_addEncounterBubbles frame_updateGameState
      split: outcome.splits)

lemma frame_sendChoice_resume:
  "requests (sendChoice_resume r s) = requests s
   \<and> startBtn_disabled (sendChoice_resume r s) = startBtn_disabled s"
  by (simp add: sendChoice_resume_def addMessage_def Let_def frame_addEncounterBubbles
      frame_updateGameState show_result_def show_story_def
      split: outcome.splits option.splits)

lemma requests_startBtn_click:
  "requests (startBtn_click s)
     = requests s @ (if startBtn_disabled s then [] else [StartRequest])"
  by (simp add: startBtn_click_def)

lemma requests_sendChoice:
  "\<exists>new. requests (sendChoice s) = requests s @ new \<and> StartRequest \<notin> set new"
  by (simp add: sendChoice_def addMessage_def Let_def)

lemma frame_sendChoice: "startBtn_disabled (sendChoice s) = startBtn_disabled s"
  by (simp add: sendChoice_def addMessage_def Let_def)

subsection \<open>One start request at a time\<close>

lemma start_guarded_step:
  assumes "start_guarded w" and "e \<noteq> RestartClick"
  shows "start_guarded (step e w)"
proof (cases e)
  case StartClick
  with assms show ?thesis
    by (auto simp: start_guarded_def handle_def Let_def requests_startBtn_click
        startBtn_click_def)
next
  case RestartClick
  with assms show ?thesis by simp
next
  case SendClick
  obtain new where "requests (sendChoice (ui w)) = requests (ui w) @ new"
    and "StartRequest \<notin> set new"
    using requests_sendChoice by blast
  then have "filter (\<lambda>q. q = StartRequest)
      (drop (length (requests (ui w))) (requests (sendChoice (ui w)))) = []"
    by (auto simp: filter_empty_conv)
  with SendClick assms show ?thesis
    by (simp add: start_guarded_def handle_def Let_def frame_sendChoice)
next
  case EnterKey
  obtain new where "requests (sendChoice (ui w)) = requests (ui w) @ new"
    and "StartRequest \<notin> set new"
    using requests_sendChoice by blast
  then have "filter (\<lambda>q. q = StartRequest)
      (drop (length (requests (ui w))) (requests (sendChoice (ui w)))) = []"
    by (auto simp: filter_empty_conv)
  with EnterKey assms show ?thesis
    by (simp add: start_guarded_def handle_def Let_def frame_sendChoice)
next
  case (TypeInput v)
  with assms show ?thesis by (simp add: start_guarded_def)
next
  case (StartDone r)
  with assms show ?thesis
    by (auto simp: start_guarded_def handle_def Let_def frame_startBtn_resume)
next
  case (ChoiceDone r)
  with assms show ?thesis
    by (simp add: start_guarded_def handle_def Let_def frame_sendChoice_resume)
next
  case (Elapse n)
  with assms show ?thesis
    by (simp add: start_guarded_def handle_def Let_def frame_elapse)
qed

lemma run_Nil: "run [] w = w"
  by (simp add: run_def)

lemma run_Cons: "run (e # es) w = run es (step e w)"
  by (simp add: run_def)

lemma start_guarded_run:
  "start_guarded w \<Longrightarrow> RestartClick \<notin> set es \<Longrightarrow> start_guarded (run es w)"
proof (induction es arbitrary: w)
  case Nil
  then show ?case by (simp add: run_Nil)
next
  case (Cons e es)
  from Cons.prems(2) have "e \<noteq> RestartClick" by auto
  with Cons.prems(1) have "start_guarded (step e w)" by (rule start_guarded_step)
  moreover from Cons.prems(2) have "RestartClick \<notin> set es" by simp
  ultimately show ?case by (simp add: run_Cons Cons.IH)
qed

text \<open>
  C9. From a world with no start request in flight, whatever the user does with the
  start control (and whatever else happens, the restart control apart), at most one
  start request is in flight. An activation disables the control in the step that
  issues the request, so a second activation right after it does nothing: two
  activations of the enabled control issue exactly one request.
\<close>

theorem one_start_request_in_flight:
  assumes "starts_pending w = 0" and "RestartClick \<notin> set es"
  shows "starts_pending (run es w) \<le> 1
    \<and> startBtn_disabled (startBtn_click s)
    \<and> startBtn_click (startBtn_click s) = startBtn_click s
    \<and> requests (startBtn_click (startBtn_click s))
        = requests s @ (if startBtn_disabled s then [] else [StartRequest])
    \<and> starts_pending (run [StartClick, StartClick] w)
        = (if startBtn_disabled (ui w) then 0 else 1)"
proof -
  from assms(1) have "start_guarded w" by (simp add: start_guarded_def)
  from start_guarded_run [OF this assms(2)] have "starts_pending (run es w) \<le> 1"
    by (auto simp: start_guarded_def)
  moreover have "starts_pending (run [StartClick, StartClick] w)
        = (if startBtn_disabled (ui w) then 0 else 1)"
    using assms(1) by (simp add: run_def handle_def Let_def startBtn_click_def)
  ultimately show ?thesis
    by (simp add: startBtn_click_def)
qed

theorem one_start_request_in_flight_witness:
  "starts_pending initial_world = 0
   \<and> starts_pending (run [StartClick, StartClick, StartDone Failed, StartClick, StartClick]
        initial_world) = 1
   \<and> requests (ui (run [StartClick, StartClick] initial_world)) = [StartRequest]"
proof -
  have z: "starts_pending initial_world = 0" by (simp add: initial_world_def)
  have n: "RestartClick \<notin> set [StartClick, StartClick, StartDone Failed, StartClick, StartClick]"
    by simp
  have e: "starts_pending
      (run [StartClick, StartClick, StartDone Failed, StartClick, StartClick] initial_world) \<ge> 1"
    by (simp add: run_def initial_world_def initial_page_def handle_def Let_def
        startBtn_click_def startBtn_resume_def)
  have r: "requests (ui (run [StartClick, StartClick] initial_world)) = [StartRequest]"
    by (simp add: run_def initial_world_def initial_page_def handle_def Let_def
        startBtn_click_def)
  show ?thesis
    using one_start_request_in_flight [OF z n] e r z by simp
qed

lemma restart_during_start_request:
  "starts_pending (run [StartClick, RestartClick, StartClick] initial_world) = 2"
  by (simp add: run_def initial_world_def initial_page_def handle_def Let_def
      startBtn_click_def restartBtn_click_def)

subsection \<open>The input controls after a restart\<close>

lemma input_locked_step: "input_locked w \<Longrightarrow> input_locked (step e w)"
proof (cases e)
  case StartClick
  moreover assume "input_locked w"
  ultimately show ?thesis
    by (simp add: input_locked_def handle_def Let_def startBtn_click_def)
next
  case RestartClick
  moreover assume "input_locked w"
  ultimately show ?thesis
    by (simp add: input_locked_def handle_def Let_def restartBtn_click_def)
next
  case (StartDone r)
  moreover assume "input_locked w"
  ultimately show ?thesis
    by (simp add: input_locked_def handle_def Let_def frame_startBtn_resume)
next
  case (Elapse n)
  moreover assume "input_locked w"
  ultimately show ?thesis
    by (simp add: input_locked_def handle_def Let_def frame_elapse)
qed (simp_all add: input_locked_def)

lemma input_locked_run: "input_locked w \<Longrightarrow> input_locked (run es w)"
proof (induction es arbitrary: w)
  case Nil
  then show ?case by (simp add: run_Nil)
next
  case (Cons e es)
  then show ?case by (simp add: run_Cons input_locked_step)
qed

lemma choice_requests_step:
  "input_locked w \<Longrightarrow>
     filter (\<lambda>q. q \<noteq> StartRequest) (requests (ui (step e w)))
       = filter (\<lambda>q. q \<noteq> StartRequest) (requests (ui w))"
  by (cases e)
     (simp_all add: input_locked_def handle_def Let_def requests_startBtn_click
       restartBtn_click_def frame_startBtn_resume frame_elapse)

lemma choice_requests_run:
  "input_locked w \<Longrightarrow>
     filter (\<lambda>q. q \<noteq> StartRequest) (requests (ui (run es w)))
       = filter (\<lambda>q. q \<noteq> StartRequest) (requests (ui w))"
proof (induction es arbitrary: w)
  case Nil
  then show ?case by (simp add: run_Nil)
next
  case (Cons e es)
  then show ?case by (simp add: run_Cons input_locked_step choice_requests_step)
qed

lemma game_over_then_new_game:
  assumes "\<not> truthy (error d)" and "game_over d = Some True" and "\<not> truthy (error d')"
    and "chatInput_disabled (ui w)" and "sendBtn_disabled (ui w)"
    and "choices_pending w = 1" and "starts_pending w = 0"
  shows "input_locked
           (run [ChoiceDone (Parsed d), RestartClick, StartClick, StartDone (Parsed d')] w)
    \<and> sessionId (gameState (ui
         (run [ChoiceDone (Parsed d), RestartClick, StartClick, StartDone (Parsed d')] w)))
        = session_id d'
    \<and> gameScreen_display (ui
         (run [ChoiceDone (Parsed d), RestartClick, StartClick, StartDone (Parsed d')] w))
        = Block"
proof -
  define w1 where "w1 = step (ChoiceDone (Parsed d)) w"
  define w2 where "w2 = step RestartClick w1"
  define w3 where "w3 = step StartClick w2"
  define w4 where "w4 = step (StartDone (Parsed d')) w3"
  have r: "run [ChoiceDone (Parsed d), RestartClick, StartClick, StartDone (Parsed d')] w = w4"
    by (simp add: run_def w1_def w2_def w3_def w4_def)
  have over: "sendChoice_resume (Parsed d) p
      = (updateGameState (state d) (show_result d (show_story d p)))
          \<lparr>gameOverScreen_display := Block, gameScreen_display := DNone,
           game_over_reason_text := str_or (game_over_reason d) msg_game_ended\<rparr>" for p
    using assms(1,2) by (simp add: sendChoice_resume_def Let_def)
  have ctl: "chatInput_disabled (sendChoice_resume (Parsed d) p) = chatInput_disabled p"
    "sendBtn_disabled (sendChoice_resume (Parsed d) p) = sendBtn_disabled p" for p
    by (simp_all add: over controls_before_encounter)
  have l1: "input_locked w1" and s1: "starts_pending w1 = 0"
    using assms(4-7)
    by (simp_all add: w1_def input_locked_def handle_def Let_def frame_sendChoice_resume ctl)
  have l2: "input_locked w2" and s2: "starts_pending w2 = 0"
    and b2: "\<not> startBtn_disabled (ui w2)"
    using l1 s1
    by (simp_all add: w2_def input_locked_def handle_def Let_def restartBtn_click_def)
  have l3: "input_locked w3" and s3: "starts_pending w3 = 1"
    using l2 s2 b2
    by (simp_all add: w3_def input_locked_def handle_def Let_def startBtn_click_def)
  have l4: "input_locked w4"
    unfolding w4_def using l3 by (rule input_locked_step)
  have u4: "ui w4 = startBtn_resume (Parsed d') (ui w3)"
    using s3 by (simp add: w4_def handle_def Let_def)
  have "sessionId (gameState (ui w4)) = session_id d'"
    and "gameScreen_display (ui w4) = Block"
    using assms(3)
    by (simp_all add: u4 startBtn_resume_def frame_addEncounterBubbles frame_updateGameState)
  with l4 show ?thesis by (simp add: r)
qed

text \<open>
  C10. The restart control resets the session, hides the game-over view, shows the
  welcome view, clears the transcript and enables the start control; it leaves the
  disabled state of the input field and of the send control as it is. So when a game
  ends (the response to a submitted choice has \<open>game_over\<close>), the user restarts and a
  new session starts, both input controls are still disabled while the game view shows
  the new session; no choice request is in flight, and whatever happens next the
  controls stay disabled and no further choice request is issued.
\<close>

theorem restart_keeps_input_disabled:
  assumes "\<not> truthy (error d)" and "game_over d = Some True" and "\<not> truthy (error d')"
    and "chatInput_disabled (ui w)" and "sendBtn_disabled (ui w)"
    and "choices_pending w = 1" and "starts_pending w = 0"
    and "w' = run [ChoiceDone (Parsed d), RestartClick, StartClick, StartDone (Parsed d')] w"
  shows "gameState (restartBtn_click s)
           = \<lparr>sessionId = None, currentEncounter = None, gs_state = None\<rparr>
    \<and> gameOverScreen_display (restartBtn_click s) = DNone
    \<and> welcomeScreen_display (restartBtn_click s) = Block
    \<and> chatMessages (restartBtn_click s) = []
    \<and> \<not> startBtn_disabled (restartBtn_click s)
    \<and> chatInput_disabled (restartBtn_click s) = chatInput_disabled s
    \<and> sendBtn_disabled (restartBtn_click s) = sendBtn_disabled s
    \<and> sessionId (gameState (ui w')) = session_id d'
    \<and> gameScreen_display (ui w') = Block
    \<and> chatInput_disabled (ui (run es w'))
    \<and> sendBtn_disabled (ui (run es w'))
    \<and> choices_pending (run es w') = 0
    \<and> filter (\<lambda>q. q \<noteq> StartRequest) (requests (ui (run es w')))
        = filter (\<lambda>q. q \<noteq> StartRequest) (requests (ui w'))"
proof -
  from game_over_then_new_game [OF assms(1-7)]
  have l: "input_locked w'" and g: "sessionId (gameState (ui w')) = session_id d'"
    and v: "gameScreen_display (ui w') = Block"
    by (simp_all add: assms(8))
  from l have "input_locked (run es w')" by (rule input_locked_run)
  then have "chatInput_disabled (ui (run es w'))" and "sendBtn_disabled (ui (run es w'))"
    and "choices_pending (run es w') = 0"
    by (simp_all add: input_locked_def)
  moreover note choice_requests_run [OF l, of es] g v
  ultimately show ?thesis
    by (simp add: restartBtn_click_def)
qed

theorem restart_keeps_input_disabled_witness:
  "\<not> truthy (error game_over_response)
   \<and> game_over game_over_response = Some True
   \<and> \<not> truthy (error start_response)
   \<and> chatInput_disabled (ui choice_sent)
   \<and> sendBtn_disabled (ui choice_sent)
   \<and> choices_pending choice_sent = 1
   \<and> starts_pending choice_sent = 0
   \<and> sessionId (gameState (ui
        (run [ChoiceDone (Parsed game_over_response), RestartClick, StartClick,
              StartDone (Parsed start_response)] choice_sent))) = Some (ascii ''s2'')
   \<and> chatInput_disabled (ui
        (run [TypeInput (ascii ''again''), SendClick, EnterKey]
          (run [ChoiceDone (Parsed game_over_response), RestartClick, StartClick,
                StartDone (Parsed start_response)] choice_sent)))
   \<and> sendBtn_disabled (ui
        (run [TypeInput (ascii ''again''), SendClick, EnterKey]
          (run [ChoiceDone (Parsed game_over_response), RestartClick, StartClick,
                StartDone (Parsed start_response)] choice_sent)))"
proof -
  have a1: "\<not> truthy (error game_over_response)"
    and a2: "game_over game_over_response = Some True"
    by (simp_all add: game_over_response_def truthy_def)
  have a3: "\<not> truthy (error start_response)"
    and sid: "session_id start_response = Some (ascii ''s2'')"
    by (simp_all add: start_response_def truthy_def)
  have t: "trim (chatInput_value live_page) \<noteq> []"
    by (simp add: live_page_def initial_page_def trim_def ascii_def is_ws_def)
  have v: "truthy (sessionId (gameState live_page))"
    by (simp add: live_page_def truthy_def ascii_def)
  have a4: "chatInput_disabled (ui choice_sent)" and a5: "sendBtn_disabled (ui choice_sent)"
    using sendChoice_submits [OF t v] by (simp_all add: choice_sent_def)
  have a6: "choices_pending choice_sent = 1" and a7: "starts_pending choice_sent = 0"
    by (simp_all add: choice_sent_def)
  show ?thesis
    using restart_keeps_input_disabled [OF a1 a2 a3 a4 a5 a6 a7 refl,
        of _ "[TypeInput (ascii ''again''), SendClick, EnterKey]"]
      a1 a2 a3 a4 a5 a6 a7
    by (simp add: sid)
qed

subsection \<open>A response that arrives after a restart\<close>

text \<open>
  C1, the claim as stated, fails. A choice is submitted from \<open>live_page\<close>, the restart
  control resets the session, and then the response to the choice arrives: it sets
  \<open>currentEncounter\<close> of the fresh session and appends a story entry and an encounter
  group to the cleared transcript.
\<close>

theorem late_response_is_applied:
  "gameState (restartBtn_click (sendChoice live_page))
     = \<lparr>sessionId = None, currentEncounter = None, gs_state = None\<rparr>
   \<and> chatMessages (restartBtn_click (sendChoice live_page)) = []
   \<and> gameState (sendChoice_resume (Parsed late_response) (restartBtn_click (sendChoice live_page)))
     = \<lparr>sessionId = None, currentEncounter = Some (Encounter 2), gs_state = None\<rparr>
   \<and> chatMessages
       (sendChoice_resume (Parsed late_response) (restartBtn_click (sendChoice live_page)))
     = [Message (ascii ''late'') (ascii ''story''), Group 0]"
  by (simp add: sendChoice_resume_def restartBtn_click_def sendChoice_def live_page_def
      initial_page_def late_response_def truthy_def Let_def show_story_def story_text_def
      str_or_def show_result_def updateGameState_def addEncounterBubbles_def addMessage_def
      trim_def is_ws_def ascii_def)

lemma session_after_choice:
  "sessionId (gameState (sendChoice_resume r s)) = sessionId (gameState s)
   \<and> gs_state (gameState (sendChoice_resume r s)) = gs_state (gameState s)
   \<and> currentEncounter (gameState (sendChoice_resume r s))
       = (case r of Failed \<Rightarrow> currentEncounter (gameState s)
          | Parsed d \<Rightarrow>
              if truthy (error d) \<or> game_over d = Some True \<or> next_encounter d = None
              then currentEncounter (gameState s) else next_encounter d)"
  by (cases r)
     (simp_all add: sendChoice_resume_def Let_def addMessage_def frame_addEncounterBubbles
       gameState_before_encounter)

lemma chat_after_failure:
  "chatMessages (sendChoice_resume Failed s)
     = chatMessages s @ [Message msg_error_retry (ascii ''system'')]"
  "truthy (error d) \<Longrightarrow>
     chatMessages (sendChoice_resume (Parsed d) s)
       = chatMessages s @ [Message (the (error d)) (ascii ''system'')]"
  by (simp_all add: sendChoice_resume_def addMessage_def)

text \<open>
  C1 as amended. The response to a choice is never discarded: when it arrives after a
  restart (with a choice request in flight) it is applied to the page as it is then,
  the reset session or a session started since, like any other response. It never
  changes \<open>sessionId\<close> or \<open>state\<close> of the session. A response without error that is not
  game-over replaces \<open>currentEncounter\<close> by its next encounter when it has one. Its
  entries are appended to the transcript as it is then: the story, result and
  encounter-group entries, or the \<open>system\<close> entry of a failed request or an error.
\<close>

theorem late_response_after_restart:
  "ui (step (ChoiceDone r) (step RestartClick w))
     = (if choices_pending w = 0 then restartBtn_click (ui w)
        else sendChoice_resume r (restartBtn_click (ui w)))
   \<and> sessionId (gameState (sendChoice_resume r s)) = sessionId (gameState s)
   \<and> gs_state (gameState (sendChoice_resume r s)) = gs_state (gameState s)
   \<and> currentEncounter (gameState (sendChoice_resume r s))
       = (case r of Failed \<Rightarrow> currentEncounter (gameState s)
          | Parsed d \<Rightarrow>
              if truthy (error d) \<or> game_over d = Some True \<or> next_encounter d = None
              then currentEncounter (gameState s) else next_encounter d)
   \<and> chatMessages (sendChoice_resume r s)
       = chatMessages s
           @ (case r of Failed \<Rightarrow> [Message msg_error_retry (ascii ''system'')]
              | Parsed d \<Rightarrow>
                  if truthy (error d) then [Message (the (error d)) (ascii ''system'')]
                  else story_entries d
                         @ (case result d of None \<Rightarrow> [] | Some x \<Rightarrow> spec_result_entries x)
                         @ encounter_entries d (length (wraps s)))"
proof -
  have "ui (step (ChoiceDone r) (step RestartClick w))
     = (if choices_pending w = 0 then restartBtn_click (ui w)
        else sendChoice_resume r (restartBtn_click (ui w)))"
    by (simp add: handle_def Let_def restartBtn_click_def)
  moreover have "chatMessages (sendChoice_resume r s)
       = chatMessages s
           @ (case r of Failed \<Rightarrow> [Message msg_error_retry (ascii ''system'')]
              | Parsed d \<Rightarrow>
                  if truthy (error d) then [Message (the (error d)) (ascii ''system'')]
                  else story_entries d
                         @ (case result d of None \<Rightarrow> [] | Some x \<Rightarrow> spec_result_entries x)
                         @ encounter_entries d (length (wraps s)))"
    by (cases r) (simp_all add: chat_after_failure chat_after_choice)
  ultimately show ?thesis
    using session_after_choice [of r s] by simp
qed

theorem late_response_after_restart_witness:
  "gameState (ui (run [RestartClick, ChoiceDone (Parsed late_response)] choice_sent))
     = \<lparr>sessionId = None, currentEncounter = Some (Encounter 2), gs_state = None\<rparr>
   \<and> chatMessages (ui (run [RestartClick, ChoiceDone (Parsed late_response)] choice_sent))
     = [Message (ascii ''late'') (ascii ''story''), Group 0]
   \<and> gameState (ui (run [RestartClick, StartClick, StartDone (Parsed start_response),
                          ChoiceDone (Parsed late_response)] choice_sent))
     = \<lparr>sessionId = Some (ascii ''s2''), currentEncounter = Some (Encounter 2),
        gs_state = Some clamp_example\<rparr>
   \<and> chatMessages (ui (run [RestartClick, StartClick, StartDone (Parsed start_response),
                             ChoiceDone (Parsed late_response)] choice_sent))
     = [Group 0, Message (ascii ''late'') (ascii ''story''), Group 1]"
proof -
  define p1 where "p1 = restartBtn_click (sendChoice live_page)"
  define p2 where "p2 = startBtn_resume (Parsed start_response) (startBtn_click p1)"
  have sent: "sendChoice live_page
      = live_page\<lparr>chatMessages := [Message (ascii ''go'') (ascii ''player'')],
          chatInput_value := [], chatInput_disabled := True, sendBtn_disabled := True,
          requests := [ChoiceRequest (ascii ''s1'') (ascii ''go'')]\<rparr>"
    by (simp add: sendChoice_def Let_def addMessage_def live_page_def initial_page_def
        truthy_def trim_def is_ws_def ascii_def)
  have r1: "ui (run [RestartClick, ChoiceDone (Parsed late_response)] choice_sent)
      = sendChoice_resume (Parsed late_response) p1"
    by (simp add: run_def choice_sent_def handle_def Let_def p1_def restartBtn_click_def)
  have r2: "ui (run [RestartClick, StartClick, StartDone (Parsed start_response),
                          ChoiceDone (Parsed late_response)] choice_sent)
      = sendChoice_resume (Parsed late_response) p2"
    by (simp add: run_def choice_sent_def handle_def Let_def p1_def p2_def
        restartBtn_click_def startBtn_click_def frame_startBtn_resume sent)
  have g1: "gameState p1 = \<lparr>sessionId = None, currentEncounter = None, gs_state = None\<rparr>"
    and c1: "chatMessages p1 = []" and w1: "wraps p1 = []"
    by (simp_all add: p1_def restartBtn_click_def sent) (simp add: live_page_def initial_page_def)
  have m: "three_messages \<noteq> []" by (simp add: three_messages_def)
  have g2: "gameState p2 = \<lparr>sessionId = Some (ascii ''s2''),
        currentEncounter = Some (Encounter 1), gs_state = Some clamp_example\<rparr>"
    and c2: "chatMessages p2 = [Group 0]" and w2: "length (wraps p2) = 1"
    using m
    by (simp_all add: p2_def startBtn_resume_def start_response_def truthy_def
        startBtn_click_def addEncounterBubbles_def Let_def chat_updateGameState
        frame_updateGameState updateGameState_def p1_def restartBtn_click_def sent)
      (simp_all add: live_page_def initial_page_def)
  have d: "\<not> truthy (error late_response)" "game_over late_response \<noteq> Some True"
    "next_encounter late_response = Some (Encounter 2)" "result late_response = None"
    "story_entries late_response = [Message (ascii ''late'') (ascii ''story'')]"
    by (simp_all add: late_response_def truthy_def story_entries_def story_text_def
        str_or_def ascii_def)
  have enc: "encounter_entries late_response n = [Group n]" for n
    by (simp add: encounter_entries_def late_response_def)
  show ?thesis
    using late_response_after_restart [of "Parsed late_response" choice_sent p1]
      late_response_after_restart [of "Parsed late_response" choice_sent p2]
    by (simp add: r1 r2 d enc g1 c1 w1 g2 c2 w2 game_state.equality)
qed

end
